theory Spec2Isabelle
  imports Main
begin

section \<open>JavaScript values\<close>

text \<open>
  A JavaScript expression of type \<open>T | null | undefined\<close>.  The adapter of
  \<^verbatim>\<open>src/db/schema.ts\<close> depends on the difference between the two empty values:
  \<^verbatim>\<open>.get()\<close> gives \<^verbatim>\<open>undefined\<close> when a statement yields no row, a NULL column is read
  as \<^verbatim>\<open>null\<close>, and \<^verbatim>\<open>??\<close> turns one into the other.
\<close>

datatype 'a js = Undefined | Null | Val 'a

text \<open>\<^verbatim>\<open>a ?? b\<close>: the right operand when the left one is \<^verbatim>\<open>null\<close> or \<^verbatim>\<open>undefined\<close>.\<close>

fun nullish :: "'a js \<Rightarrow> 'a js \<Rightarrow> 'a js" where
  "nullish (Val v) b = Val v"
| "nullish Undefined b = b"
| "nullish Null b = b"

text \<open>\<^verbatim>\<open>r?.f\<close>: \<^verbatim>\<open>undefined\<close> when \<open>r\<close> is \<^verbatim>\<open>null\<close> or \<^verbatim>\<open>undefined\<close>, the property otherwise.\<close>

fun optional_chain :: "'a js \<Rightarrow> ('a \<Rightarrow> 'b js) \<Rightarrow> 'b js" where
  "optional_chain (Val r) f = f r"
| "optional_chain Undefined f = Undefined"
| "optional_chain Null f = Undefined"

text \<open>\<^verbatim>\<open>!s\<close> for \<open>s\<close> a string or \<^verbatim>\<open>undefined\<close>: the empty string is falsy too.\<close>

fun js_not :: "string option \<Rightarrow> bool" where
  "js_not None = True"
| "js_not (Some s) = (s = [])"

text \<open>A nullable column read back from a row: NULL is \<^verbatim>\<open>null\<close>.\<close>

fun column :: "'a option \<Rightarrow> 'a js" where
  "column None = Null"
| "column (Some v) = Val v"

text \<open>
  The value an \<^verbatim>\<open>insert\<close> stores in a nullable column for a property of the
  \<^verbatim>\<open>values\<close> object: NULL when the property is missing or \<^verbatim>\<open>null\<close>.
\<close>

fun insert_value :: "'a js \<Rightarrow> 'a option" where
  "insert_value (Val v) = Some v"
| "insert_value Undefined = None"
| "insert_value Null = None"

text \<open>
  The value an \<^verbatim>\<open>update ... set\<close> leaves in a nullable column: a missing property
  keeps the column, \<^verbatim>\<open>null\<close> stores NULL.
\<close>

fun set_value :: "'a js \<Rightarrow> 'a option \<Rightarrow> 'a option" where
  "set_value Undefined old = old"
| "set_value Null old = None"
| "set_value (Val v) old = Some v"

text \<open>The same for a \<^verbatim>\<open>notNull\<close> column, whose property is a value or missing.\<close>

fun set_required :: "'a option \<Rightarrow> 'a \<Rightarrow> 'a" where
  "set_required None old = old"
| "set_required (Some v) old = v"

section \<open>The schema\<close>

text \<open>
  One record per \<^verbatim>\<open>sqliteTable\<close>; a field is named after its table and column
  (\<^verbatim>\<open>users.id\<close> is \<open>users_id\<close>).  A column without \<^verbatim>\<open>notNull()\<close> holds an
  option.  Columns of mode \<^verbatim>\<open>timestamp_ms\<close> hold milliseconds as an integer.
\<close>

record user =
  users_id :: string
  users_name :: "string option"
  users_email :: string
  users_emailVerified :: "int option"
  users_image :: "string option"

record account =
  accounts_userId :: string
  accounts_type :: string
  accounts_provider :: string
  accounts_providerAccountId :: string
  accounts_refresh_token :: "string option"
  accounts_access_token :: "string option"
  accounts_expires_at :: "int option"
  accounts_token_type :: "string option"
  accounts_scope :: "string option"
  accounts_id_token :: "string option"
  accounts_session_state :: "string option"

record session =
  sessions_sessionToken :: string
  sessions_userId :: string
  sessions_expires :: int

record verificationToken =
  vt_identifier :: string
  vt_token :: string
  vt_expires :: int

text \<open>The store behind the client: the rows of the four tables the adapter uses.\<close>

record db =
  users :: "user list"
  accounts :: "account list"
  sessions :: "session list"
  verificationTokens :: "verificationToken list"

definition empty_db :: db where
  "empty_db = \<lparr>users = [], accounts = [], sessions = [], verificationTokens = []\<rparr>"

text \<open>
  The constraints the schema declares: the primary keys (\<^verbatim>\<open>users.id\<close>,
  \<^verbatim>\<open>sessions.sessionToken\<close>, the compound keys of \<^verbatim>\<open>accounts\<close> and
  \<^verbatim>\<open>verificationToken\<close>) and the two references to \<^verbatim>\<open>users.id\<close>.
\<close>

definition user_ids :: "db \<Rightarrow> string list" where
  "user_ids d = map users_id (users d)"

definition account_key :: "account \<Rightarrow> string \<times> string" where
  "account_key a = (accounts_provider a, accounts_providerAccountId a)"

definition vt_key :: "verificationToken \<Rightarrow> string \<times> string" where
  "vt_key v = (vt_identifier v, vt_token v)"

definition pk_ok :: "db \<Rightarrow> bool" where
  "pk_ok d \<longleftrightarrow>
     distinct (user_ids d) \<and>
     distinct (map account_key (accounts d)) \<and>
     distinct (map sessions_sessionToken (sessions d)) \<and>
     distinct (map vt_key (verificationTokens d))"

definition fk_ok :: "db \<Rightarrow> bool" where
  "fk_ok d \<longleftrightarrow>
     (\<forall>a \<in> set (accounts d). accounts_userId a \<in> set (user_ids d)) \<and>
     (\<forall>s \<in> set (sessions d). sessions_userId s \<in> set (user_ids d))"

definition wf_db :: "db \<Rightarrow> bool" where
  "wf_db d \<longleftrightarrow> pk_ok d \<and> fk_ok d"

section \<open>The client\<close>

text \<open>
  What a statement of the client can throw: a violated constraint of the schema, or a
  fault of the driver (connection, I/O) with its message.  \<open>Error\<close> is the JavaScript
  \<^verbatim>\<open>Error\<close> the adapter itself throws.
\<close>

datatype store_error =
  Unique_constraint | Not_null_constraint | Foreign_key_constraint | Driver_fault string

datatype error = Store store_error | Error string

text \<open>
  \<^verbatim>\<open>SQLiteDrizzleAdapter\<close> takes a \<^verbatim>\<open>BaseSQLiteDatabase<any, any>\<close>: the client's
  result kind is left open.  With a synchronous client \<^verbatim>\<open>.get()\<close> returns the row
  (or throws); with an asynchronous one, such as the D1 store of this repository's
  scripts, it returns a promise that resolves to the row (or rejects).
\<close>

datatype kind = Sync | Async

text \<open>
  What \<^verbatim>\<open>.get()\<close> hands to the adapter, and what an adapter function returns: a
  plain value, or a promise with the way it settles (\<open>Inl\<close>: it rejects).
\<close>

datatype 'a result = Plain "'a js" | Promise "error + 'a js"

text \<open>\<^verbatim>\<open>v ?? b\<close> on such a result: a promise is neither \<^verbatim>\<open>null\<close> nor \<^verbatim>\<open>undefined\<close>.\<close>

fun nullish_result :: "'a result \<Rightarrow> 'a js \<Rightarrow> 'a result" where
  "nullish_result (Plain x) b = Plain (nullish x b)"
| "nullish_result (Promise p) b = Promise p"

text \<open>
  \<^verbatim>\<open>v?.f\<close> for a column \<open>f\<close> of the row: a promise has no such property, so
  reading it gives \<^verbatim>\<open>undefined\<close>.
\<close>

fun optional_property :: "'a result \<Rightarrow> ('a \<Rightarrow> 'b js) \<Rightarrow> 'b js" where
  "optional_property (Plain x) f = optional_chain x f"
| "optional_property (Promise p) f = Undefined"

text \<open>\<^verbatim>\<open>.get()\<close> on rows: the first row of the result, \<^verbatim>\<open>undefined\<close> when there is none.\<close>

fun get :: "'a list \<Rightarrow> 'a js" where
  "get [] = Undefined"
| "get (r # rows) = Val r"

text \<open>
  Every adapter function runs one statement and calls \<^verbatim>\<open>.get()\<close> (or
  \<^verbatim>\<open>.run()\<close>) on it.  \<open>fault\<close> says whether the driver fails on that statement
  (and with which message); \<open>run\<close> is what the statement does to the tables
  otherwise: the rows it returns, or the constraint it violates.  A failed
  statement leaves the tables as they were.  The synchronous client throws a
  failure; the asynchronous one returns a promise in every case.
\<close>

fun statement ::
  "kind \<Rightarrow> string option \<Rightarrow> db \<Rightarrow> (error + 'a list) \<times> db \<Rightarrow> (error + 'a result) \<times> db" where
  "statement Sync (Some msg) d run = (Inl (Store (Driver_fault msg)), d)"
| "statement Sync None d (Inl e, d') = (Inl e, d')"
| "statement Sync None d (Inr rows, d') = (Inr (Plain (get rows)), d')"
| "statement Async (Some msg) d run = (Inr (Promise (Inl (Store (Driver_fault msg)))), d)"
| "statement Async None d (Inl e, d') = (Inr (Promise (Inl e)), d')"
| "statement Async None d (Inr rows, d') = (Inr (Promise (Inr (get rows))), d')"

text \<open>\<^verbatim>\<open>e ?? b\<close> for an expression \<open>e\<close> that may throw.\<close>

fun coalesce :: "(error + 'a result) \<times> db \<Rightarrow> 'a js \<Rightarrow> (error + 'a result) \<times> db" where
  "coalesce (Inl e, d) b = (Inl e, d)"
| "coalesce (Inr v, d) b = (Inr (nullish_result v b), d)"

text \<open>
  What the caller sees who awaits the result, as the \<^verbatim>\<open>Awaitable\<close> results of
  the \<^verbatim>\<open>Adapter\<close> interface are meant to be used: the error thrown or rejected
  with, or the value returned or resolved to.
\<close>

fun awaited :: "(error + 'a result) \<times> db \<Rightarrow> (error + 'a js) \<times> db" where
  "awaited (Inl e, d) = (Inl e, d)"
| "awaited (Inr (Plain x), d) = (Inr x, d)"
| "awaited (Inr (Promise p), d) = (p, d)"

text \<open>\<^verbatim>\<open>insert(t).values(row).returning()\<close>, with the checks of the table's keys.\<close>

definition insert_users :: "db \<Rightarrow> user \<Rightarrow> (error + user list) \<times> db" where
  "insert_users d row =
     (if users_id row \<in> set (user_ids d) then (Inl (Store Unique_constraint), d)
      else (Inr [row], d\<lparr>users := users d @ [row]\<rparr>))"

definition insert_accounts :: "db \<Rightarrow> account \<Rightarrow> (error + account list) \<times> db" where
  "insert_accounts d row =
     (if account_key row \<in> set (map account_key (accounts d))
      then (Inl (Store Unique_constraint), d)
      else if accounts_userId row \<notin> set (user_ids d)
      then (Inl (Store Foreign_key_constraint), d)
      else (Inr [row], d\<lparr>accounts := accounts d @ [row]\<rparr>))"

definition insert_sessions :: "db \<Rightarrow> session \<Rightarrow> (error + session list) \<times> db" where
  "insert_sessions d row =
     (if sessions_sessionToken row \<in> set (map sessions_sessionToken (sessions d))
      then (Inl (Store Unique_constraint), d)
      else if sessions_userId row \<notin> set (user_ids d)
      then (Inl (Store Foreign_key_constraint), d)
      else (Inr [row], d\<lparr>sessions := sessions d @ [row]\<rparr>))"

definition insert_verificationTokens ::
  "db \<Rightarrow> verificationToken \<Rightarrow> (error + verificationToken list) \<times> db" where
  "insert_verificationTokens d row =
     (if vt_key row \<in> set (map vt_key (verificationTokens d))
      then (Inl (Store Unique_constraint), d)
      else (Inr [row], d\<lparr>verificationTokens := verificationTokens d @ [row]\<rparr>))"

text \<open>
  \<^verbatim>\<open>delete(t).where(p).returning()\<close>: the rows removed and the tables left.  Both
  \<^verbatim>\<open>accounts.userId\<close> and \<^verbatim>\<open>sessions.userId\<close> are declared
  \<^verbatim>\<open>references(() => users.id, { onDelete: "cascade" })\<close>, so removing a user removes
  the accounts and sessions that refer to it.
\<close>

definition delete_users :: "db \<Rightarrow> (user \<Rightarrow> bool) \<Rightarrow> (error + user list) \<times> db" where
  "delete_users d p =
     (let gone = filter p (users d); ids = map users_id gone
      in (Inr gone,
          d\<lparr>users := filter (\<lambda>u. \<not> p u) (users d),
            accounts := filter (\<lambda>a. accounts_userId a \<notin> set ids) (accounts d),
            sessions := filter (\<lambda>s. sessions_userId s \<notin> set ids) (sessions d)\<rparr>))"

definition delete_sessions ::
  "db \<Rightarrow> (session \<Rightarrow> bool) \<Rightarrow> (error + session list) \<times> db" where
  "delete_sessions d p =
     (Inr (filter p (sessions d)), d\<lparr>sessions := filter (\<lambda>s. \<not> p s) (sessions d)\<rparr>)"

definition delete_accounts ::
  "db \<Rightarrow> (account \<Rightarrow> bool) \<Rightarrow> (error + account list) \<times> db" where
  "delete_accounts d p =
     (Inr (filter p (accounts d)), d\<lparr>accounts := filter (\<lambda>a. \<not> p a) (accounts d)\<rparr>)"

definition delete_verificationTokens ::
  "db \<Rightarrow> (verificationToken \<Rightarrow> bool) \<Rightarrow> (error + verificationToken list) \<times> db" where
  "delete_verificationTokens d p =
     (Inr (filter p (verificationTokens d)),
      d\<lparr>verificationTokens := filter (\<lambda>v. \<not> p v) (verificationTokens d)\<rparr>)"

text \<open>
  \<^verbatim>\<open>update(t).set(f).where(p).returning()\<close>.  Both updates of the adapter assign to
  the key column the value their \<^verbatim>\<open>where\<close> selects on, so no key changes.  The
  reference of an updated session is checked only when the statement assigns to
  \<^verbatim>\<open>userId\<close> (\<open>assigns_userId\<close>): SQLite looks the parent up only for a child
  key that the statement modifies.
\<close>

definition update_users ::
  "db \<Rightarrow> (user \<Rightarrow> bool) \<Rightarrow> (user \<Rightarrow> user) \<Rightarrow> (error + user list) \<times> db" where
  "update_users d p f =
     (Inr (map f (filter p (users d))),
      d\<lparr>users := map (\<lambda>u. if p u then f u else u) (users d)\<rparr>)"

definition update_sessions ::
  "db \<Rightarrow> (session \<Rightarrow> bool) \<Rightarrow> (session \<Rightarrow> session) \<Rightarrow> bool \<Rightarrow>
   (error + session list) \<times> db" where
  "update_sessions d p f assigns_userId =
     (let changed = map f (filter p (sessions d))
      in if assigns_userId \<and> (\<exists>s \<in> set changed. sessions_userId s \<notin> set (user_ids d))
         then (Inl (Store Foreign_key_constraint), d)
         else (Inr changed, d\<lparr>sessions := map (\<lambda>s. if p s then f s else s) (sessions d)\<rparr>))"

text \<open>\<^verbatim>\<open>from(a).innerJoin(b, on)\<close> and \<^verbatim>\<open>from(a).leftJoin(b, on)\<close>.\<close>

definition innerJoin :: "'a list \<Rightarrow> 'b list \<Rightarrow> ('a \<Rightarrow> 'b \<Rightarrow> bool) \<Rightarrow> ('a \<times> 'b) list" where
  "innerJoin xs ys on = concat (map (\<lambda>x. map (Pair x) (filter (on x) ys)) xs)"

definition leftJoin ::
  "'a list \<Rightarrow> 'b list \<Rightarrow> ('a \<Rightarrow> 'b \<Rightarrow> bool) \<Rightarrow> ('a \<times> 'b option) list" where
  "leftJoin xs ys on =
     concat (map (\<lambda>x. case filter (on x) ys of
                         [] \<Rightarrow> [(x, None)]
                       | m # ms \<Rightarrow> map (\<lambda>y. (x, Some y)) (m # ms)) xs)"

section \<open>The arguments and results of the adapter\<close>

text \<open>
  The argument of \<^verbatim>\<open>createUser\<close>.  Its declared type is the adapter user without
  \<^verbatim>\<open>id\<close>; the object passed may still carry one, which the spread copies.
  \<^verbatim>\<open>name\<close> and \<^verbatim>\<open>image\<close> are optional and nullable.
\<close>

record new_user =
  nu_id :: "string option"
  nu_name :: "string js"
  nu_email :: string
  nu_emailVerified :: "int js"
  nu_image :: "string js"

text \<open>The argument of \<^verbatim>\<open>updateUser\<close>: every property may be missing.\<close>

record user_update =
  uu_id :: "string option"
  uu_name :: "string js"
  uu_email :: "string option"
  uu_emailVerified :: "int js"
  uu_image :: "string js"

text \<open>The argument of \<^verbatim>\<open>updateSession\<close>: the token and the properties to change.\<close>

record session_update =
  su_sessionToken :: string
  su_userId :: "string option"
  su_expires :: "int option"

text \<open>
  \<^verbatim>\<open>AdapterAccount\<close>, the argument of \<^verbatim>\<open>linkAccount\<close>: four required
  properties and seven optional ones.
\<close>

record adapter_account =
  acc_userId :: string
  acc_type :: string
  acc_provider :: string
  acc_providerAccountId :: string
  acc_refresh_token :: "string js"
  acc_access_token :: "string js"
  acc_expires_at :: "int js"
  acc_token_type :: "string js"
  acc_scope :: "string js"
  acc_id_token :: "string js"
  acc_session_state :: "string js"

text \<open>The argument of \<^verbatim>\<open>getUserByAccount\<close> and \<^verbatim>\<open>unlinkAccount\<close>.\<close>

record account_id =
  key_provider :: string
  key_providerAccountId :: string

text \<open>The argument of \<^verbatim>\<open>useVerificationToken\<close>.\<close>

record token_id =
  tok_identifier :: string
  tok_token :: string

text \<open>The result row of \<^verbatim>\<open>select({ session: sessions, user: users })\<close>.\<close>

record session_and_user =
  session :: session
  user :: user

text \<open>
  The object \<^verbatim>\<open>linkAccount\<close> builds and returns.  It is declared an
  \<^verbatim>\<open>AdapterAccount\<close>, but each of its properties is what the object literal
  finds in \<^verbatim>\<open>updatedAccount\<close>, which can be \<^verbatim>\<open>undefined\<close>.
\<close>

record account_object =
  obj_userId :: "string js"
  obj_type :: "string js"
  obj_provider :: "string js"
  obj_providerAccountId :: "string js"
  obj_refresh_token :: "string js"
  obj_access_token :: "string js"
  obj_expires_at :: "int js"
  obj_token_type :: "string js"
  obj_scope :: "string js"
  obj_id_token :: "string js"
  obj_session_state :: "string js"

section \<open>The adapter\<close>

text \<open>
  \<^verbatim>\<open>SQLiteDrizzleAdapter(client)\<close>.  Each function takes the kind of the client,
  the driver's fault for its statement (\<open>None\<close>: the driver works) and the
  tables, and gives what it throws or returns together with the tables
  afterwards.  No function awaits what \<^verbatim>\<open>.get()\<close> returns.
\<close>

text \<open>
  The row stored for the object \<^verbatim>\<open>{ ...data, id: ... }\<close>; \<^verbatim>\<open>users.id\<close> is
  \<^verbatim>\<open>notNull\<close> and has no default.
\<close>

definition users_row :: "new_user \<Rightarrow> error + user" where
  "users_row v =
     (case nu_id v of
        None \<Rightarrow> Inl (Store Not_null_constraint)
      | Some i \<Rightarrow>
          Inr \<lparr>users_id = i,
               users_name = insert_value (nu_name v),
               users_email = nu_email v,
               users_emailVerified = insert_value (nu_emailVerified v),
               users_image = insert_value (nu_image v)\<rparr>)"

text \<open>\<open>uuid\<close> is the value \<^verbatim>\<open>crypto.randomUUID()\<close> returns in this call.\<close>

definition createUser ::
  "kind \<Rightarrow> string option \<Rightarrow> string \<Rightarrow> db \<Rightarrow> new_user \<Rightarrow> (error + user result) \<times> db" where
  "createUser k fault uuid d data =
     statement k fault d
       (case users_row (data\<lparr>nu_id := Some uuid\<rparr>) of
          Inl e \<Rightarrow> (Inl e, d)
        | Inr row \<Rightarrow> insert_users d row)"

definition getUser ::
  "kind \<Rightarrow> string option \<Rightarrow> db \<Rightarrow> string \<Rightarrow> (error + user result) \<times> db" where
  "getUser k fault d data =
     coalesce (statement k fault d (Inr (filter (\<lambda>u. users_id u = data) (users d)), d)) Null"

definition getUserByEmail ::
  "kind \<Rightarrow> string option \<Rightarrow> db \<Rightarrow> string \<Rightarrow> (error + user result) \<times> db" where
  "getUserByEmail k fault d data =
     coalesce (statement k fault d (Inr (filter (\<lambda>u. users_email u = data) (users d)), d)) Null"

definition createSession ::
  "kind \<Rightarrow> string option \<Rightarrow> db \<Rightarrow> session \<Rightarrow> (error + session result) \<times> db" where
  "createSession k fault d data = statement k fault d (insert_sessions d data)"

definition getSessionAndUser ::
  "kind \<Rightarrow> string option \<Rightarrow> db \<Rightarrow> string \<Rightarrow> (error + session_and_user result) \<times> db" where
  "getSessionAndUser k fault d data =
     coalesce
       (statement k fault d
          (Inr (map (\<lambda>(s, u). \<lparr>session = s, user = u\<rparr>)
                  (filter (\<lambda>(s, u). sessions_sessionToken s = data)
                     (innerJoin (sessions d) (users d)
                        (\<lambda>s u. users_id u = sessions_userId s)))),
           d))
       Null"

text \<open>\<^verbatim>\<open>set(data)\<close> on a user row.\<close>

definition set_user :: "user_update \<Rightarrow> user \<Rightarrow> user" where
  "set_user data u =
     \<lparr>users_id = set_required (uu_id data) (users_id u),
      users_name = set_value (uu_name data) (users_name u),
      users_email = set_required (uu_email data) (users_email u),
      users_emailVerified = set_value (uu_emailVerified data) (users_emailVerified u),
      users_image = set_value (uu_image data) (users_image u)\<rparr>"

definition updateUser ::
  "kind \<Rightarrow> string option \<Rightarrow> db \<Rightarrow> user_update \<Rightarrow> (error + user result) \<times> db" where
  "updateUser k fault d data =
     (if js_not (uu_id data) then (Inl (Error ''No user id.''), d)
      else statement k fault d
             (update_users d (\<lambda>u. Some (users_id u) = uu_id data) (set_user data)))"

text \<open>\<^verbatim>\<open>set(data)\<close> on a session row.\<close>

definition set_session :: "session_update \<Rightarrow> session \<Rightarrow> session" where
  "set_session data s =
     \<lparr>sessions_sessionToken = su_sessionToken data,
      sessions_userId = set_required (su_userId data) (sessions_userId s),
      sessions_expires = set_required (su_expires data) (sessions_expires s)\<rparr>"

definition updateSession ::
  "kind \<Rightarrow> string option \<Rightarrow> db \<Rightarrow> session_update \<Rightarrow> (error + session result) \<times> db" where
  "updateSession k fault d data =
     statement k fault d
       (update_sessions d (\<lambda>s. sessions_sessionToken s = su_sessionToken data)
          (set_session data) (su_userId data \<noteq> None))"

text \<open>The row stored for \<^verbatim>\<open>values(rawAccount)\<close>.\<close>

definition accounts_row :: "adapter_account \<Rightarrow> account" where
  "accounts_row v =
     \<lparr>accounts_userId = acc_userId v,
      accounts_type = acc_type v,
      accounts_provider = acc_provider v,
      accounts_providerAccountId = acc_providerAccountId v,
      accounts_refresh_token = insert_value (acc_refresh_token v),
      accounts_access_token = insert_value (acc_access_token v),
      accounts_expires_at = insert_value (acc_expires_at v),
      accounts_token_type = insert_value (acc_token_type v),
      accounts_scope = insert_value (acc_scope v),
      accounts_id_token = insert_value (acc_id_token v),
      accounts_session_state = insert_value (acc_session_state v)\<rparr>"

text \<open>
  The object literal of \<^verbatim>\<open>linkAccount\<close>, by what \<^verbatim>\<open>updatedAccount\<close> is.  Of a
  row the spread copies every column and the seven optional ones are then
  replaced by \<^verbatim>\<open>column ?? undefined\<close>.  A promise has no own enumerable
  property and none of the columns: the spread copies nothing and every property
  read is \<^verbatim>\<open>undefined\<close>.  Reading a property of \<^verbatim>\<open>undefined\<close> or \<^verbatim>\<open>null\<close> throws.
\<close>

fun account_literal :: "account result \<Rightarrow> error + account_object" where
  "account_literal (Plain (Val updatedAccount)) =
     Inr \<lparr>obj_userId = Val (accounts_userId updatedAccount),
          obj_type = Val (accounts_type updatedAccount),
          obj_provider = Val (accounts_provider updatedAccount),
          obj_providerAccountId = Val (accounts_providerAccountId updatedAccount),
          obj_refresh_token =
            nullish (column (accounts_refresh_token updatedAccount)) Undefined,
          obj_access_token =
            nullish (column (accounts_access_token updatedAccount)) Undefined,
          obj_expires_at = nullish (column (accounts_expires_at updatedAccount)) Undefined,
          obj_token_type = nullish (column (accounts_token_type updatedAccount)) Undefined,
          obj_scope = nullish (column (accounts_scope updatedAccount)) Undefined,
          obj_id_token = nullish (column (accounts_id_token updatedAccount)) Undefined,
          obj_session_state =
            nullish (column (accounts_session_state updatedAccount)) Undefined\<rparr>"
| "account_literal (Promise p) =
     Inr \<lparr>obj_userId = Undefined,
          obj_type = Undefined,
          obj_provider = Undefined,
          obj_providerAccountId = Undefined,
          obj_refresh_token = nullish Undefined Undefined,
          obj_access_token = nullish Undefined Undefined,
          obj_expires_at = nullish Undefined Undefined,
          obj_token_type = nullish Undefined Undefined,
          obj_scope = nullish Undefined Undefined,
          obj_id_token = nullish Undefined Undefined,
          obj_session_state = nullish Undefined Undefined\<rparr>"
| "account_literal (Plain Undefined) = Inl (Error ''TypeError'')"
| "account_literal (Plain Null) = Inl (Error ''TypeError'')"

definition linkAccount ::
  "kind \<Rightarrow> string option \<Rightarrow> db \<Rightarrow> adapter_account \<Rightarrow> (error + account_object result) \<times> db" where
  "linkAccount k fault d rawAccount =
     (case statement k fault d (insert_accounts d (accounts_row rawAccount)) of
        (Inl e, d') \<Rightarrow> (Inl e, d')
      | (Inr updatedAccount, d') \<Rightarrow>
          (case account_literal updatedAccount of
             Inl e \<Rightarrow> (Inl e, d')
           | Inr account \<Rightarrow> (Inr (Plain (Val account)), d')))"

text \<open>
  A row of the left join is an account with its user, or with \<^verbatim>\<open>null\<close> where no
  user has the account's \<^verbatim>\<open>userId\<close>.  The function returns
  \<^verbatim>\<open>results?.users ?? null\<close>, a plain value.
\<close>

definition getUserByAccount ::
  "kind \<Rightarrow> string option \<Rightarrow> db \<Rightarrow> account_id \<Rightarrow> (error + user result) \<times> db" where
  "getUserByAccount k fault d account =
     (case statement k fault d
             (Inr (filter (\<lambda>(a, u). accounts_provider a = key_provider account \<and>
                                   accounts_providerAccountId a = key_providerAccountId account)
                     (leftJoin (accounts d) (users d)
                        (\<lambda>a u. users_id u = accounts_userId a))),
              d) of
        (Inl e, d') \<Rightarrow> (Inl e, d')
      | (Inr results, d') \<Rightarrow>
          (Inr (Plain (nullish (optional_property results (\<lambda>r. column (snd r))) Null)), d'))"

definition deleteSession ::
  "kind \<Rightarrow> string option \<Rightarrow> db \<Rightarrow> string \<Rightarrow> (error + session result) \<times> db" where
  "deleteSession k fault d sessionToken =
     coalesce
       (statement k fault d
          (delete_sessions d (\<lambda>s. sessions_sessionToken s = sessionToken)))
       Null"

definition createVerificationToken ::
  "kind \<Rightarrow> string option \<Rightarrow> db \<Rightarrow> verificationToken \<Rightarrow>
   (error + verificationToken result) \<times> db" where
  "createVerificationToken k fault d token =
     statement k fault d (insert_verificationTokens d token)"

text \<open>
  The \<^verbatim>\<open>try\<close> block returns \<^verbatim>\<open>.get() ?? null\<close>; the \<^verbatim>\<open>catch\<close> replaces what
  the block throws.  A promise that rejects later is returned, not thrown.
\<close>

definition useVerificationToken ::
  "kind \<Rightarrow> string option \<Rightarrow> db \<Rightarrow> token_id \<Rightarrow> (error + verificationToken result) \<times> db" where
  "useVerificationToken k fault d token =
     (case coalesce
             (statement k fault d
                (delete_verificationTokens d
                   (\<lambda>v. vt_identifier v = tok_identifier token \<and>
                        vt_token v = tok_token token)))
             Null of
        (Inl err, d') \<Rightarrow> (Inl (Error ''No verification token found.''), d')
      | (Inr row, d') \<Rightarrow> (Inr row, d'))"

definition deleteUser ::
  "kind \<Rightarrow> string option \<Rightarrow> db \<Rightarrow> string \<Rightarrow> (error + user result) \<times> db" where
  "deleteUser k fault d i = statement k fault d (delete_users d (\<lambda>u. users_id u = i))"

text \<open>\<^verbatim>\<open>.run()\<close>, whose result is dropped; the function returns \<^verbatim>\<open>undefined\<close>.\<close>

definition unlinkAccount ::
  "kind \<Rightarrow> string option \<Rightarrow> db \<Rightarrow> account_id \<Rightarrow> (error + unit result) \<times> db" where
  "unlinkAccount k fault d account =
     (case statement k fault d
             (delete_accounts d
                (\<lambda>a. accounts_providerAccountId a = key_providerAccountId account \<and>
                     accounts_provider a = key_provider account)) of
        (Inl e, d') \<Rightarrow> (Inl e, d')
      | (Inr r, d') \<Rightarrow> (Inr (Plain Undefined), d'))"

section \<open>Example data\<close>

text \<open>An argument of \<^verbatim>\<open>createUser\<close> that carries an \<^verbatim>\<open>id\<close> of its own.\<close>

definition example_new_user :: new_user where
  "example_new_user =
     \<lparr>nu_id = Some ''supplied'', nu_name = Undefined, nu_email = ''a@b.com'',
      nu_emailVerified = Null, nu_image = Undefined\<rparr>"

text \<open>A store with one row in each table; the account and the session belong to the user.\<close>

definition example_user :: user where
  "example_user =
     \<lparr>users_id = ''u1'', users_name = None, users_email = ''a@b.com'',
      users_emailVerified = None, users_image = None\<rparr>"

definition example_account :: account where
  "example_account =
     \<lparr>accounts_userId = ''u1'', accounts_type = ''oauth'', accounts_provider = ''github'',
      accounts_providerAccountId = ''123'', accounts_refresh_token = None,
      accounts_access_token = Some ''at'', accounts_expires_at = None,
      accounts_token_type = None, accounts_scope = None, accounts_id_token = None,
      accounts_session_state = None\<rparr>"

definition example_session :: session where
  "example_session =
     \<lparr>sessions_sessionToken = ''s1'', sessions_userId = ''u1'', sessions_expires = 1000\<rparr>"

definition example_token :: verificationToken where
  "example_token = \<lparr>vt_identifier = ''x@y.com'', vt_token = ''abc'', vt_expires = 1000\<rparr>"

definition example_db :: db where
  "example_db =
     \<lparr>users = [example_user], accounts = [example_account],
      sessions = [example_session], verificationTokens = [example_token]\<rparr>"

lemmas example_defs =
  example_db_def example_user_def example_account_def example_session_def example_token_def

text \<open>A store with two users, each with an account and a session.\<close>

definition second_user :: user where
  "second_user =
     \<lparr>users_id = ''u2'', users_name = Some ''Bo'', users_email = ''c@d.com'',
      users_emailVerified = None, users_image = None\<rparr>"

definition second_account :: account where
  "second_account =
     \<lparr>accounts_userId = ''u2'', accounts_type = ''oauth'', accounts_provider = ''github'',
      accounts_providerAccountId = ''456'', accounts_refresh_token = None,
      accounts_access_token = None, accounts_expires_at = None,
      accounts_token_type = None, accounts_scope = None, accounts_id_token = None,
      accounts_session_state = None\<rparr>"

definition second_session :: session where
  "second_session =
     \<lparr>sessions_sessionToken = ''s2'', sessions_userId = ''u2'', sessions_expires = 2000\<rparr>"

definition two_users_db :: db where
  "two_users_db =
     \<lparr>users = [example_user, second_user], accounts = [example_account, second_account],
      sessions = [example_session, second_session], verificationTokens = []\<rparr>"

lemmas two_users_defs =
  two_users_db_def second_user_def second_account_def second_session_def
  example_user_def example_account_def example_session_def

text \<open>An account to link to the example user, with \<^verbatim>\<open>null\<close>, missing and given tokens.\<close>

definition example_raw_account :: adapter_account where
  "example_raw_account =
     \<lparr>acc_userId = ''u1'', acc_type = ''oauth'', acc_provider = ''google'',
      acc_providerAccountId = ''789'', acc_refresh_token = Null,
      acc_access_token = Val ''at'', acc_expires_at = Undefined,
      acc_token_type = Val ''bearer'', acc_scope = Undefined, acc_id_token = Null,
      acc_session_state = Undefined\<rparr>"

text \<open>The object \<^verbatim>\<open>linkAccount\<close> builds from a promise: no property has a value.\<close>

definition empty_account_object :: account_object where
  "empty_account_object =
     \<lparr>obj_userId = Undefined, obj_type = Undefined, obj_provider = Undefined,
      obj_providerAccountId = Undefined, obj_refresh_token = Undefined,
      obj_access_token = Undefined, obj_expires_at = Undefined, obj_token_type = Undefined,
      obj_scope = Undefined, obj_id_token = Undefined, obj_session_state = Undefined\<rparr>"

section \<open>Basic facts\<close>

lemma get_eq_Undefined [simp]: "get rows = Undefined \<longleftrightarrow> rows = []"
  by (cases rows) simp_all

lemma get_neq_Null [simp]: "get rows \<noteq> Null"
  by (cases rows) simp_all

lemma get_eq_Val: "get rows = Val r \<longleftrightarrow> (\<exists>rest. rows = r # rest)"
  by (cases rows) auto

lemma nullish_get_Null [simp]: "nullish (get rows) Null = Null \<longleftrightarrow> rows = []"
  by (cases rows) simp_all

lemma nullish_get_Val [simp]:
  "nullish (get rows) b = Val r \<longleftrightarrow> get rows = Val r \<or> (rows = [] \<and> b = Val r)"
  by (cases rows) simp_all

lemma filter_none: "(\<forall>x \<in> set xs. \<not> p x) \<Longrightarrow> filter p xs = []"
  by (induction xs) simp_all

lemma filter_all: "(\<forall>x \<in> set xs. p x) \<Longrightarrow> filter p xs = xs"
  by (induction xs) simp_all

lemma filter_key_distinct:
  "distinct (map f xs) \<Longrightarrow> x \<in> set xs \<Longrightarrow> filter (\<lambda>y. f y = f x) xs = [x]"
proof (induction xs)
  case Nil
  then show ?case by simp
next
  case (Cons a xs)
  show ?case
  proof (cases "a = x")
    case True
    with Cons.prems have "f x \<notin> f ` set xs" by simp
    then have "\<forall>y \<in> set xs. f y \<noteq> f x" by (metis imageI)
    then have "filter (\<lambda>y. f y = f x) xs = []" by (simp add: filter_none)
    with True show ?thesis by simp
  next
    case False
    with Cons.prems have "x \<in> set xs" and "f a \<noteq> f x" by auto
    with Cons show ?thesis by simp
  qed
qed

lemma set_innerJoin:
  "set (innerJoin xs ys on) = {(x, y). x \<in> set xs \<and> y \<in> set ys \<and> on x y}"
  by (auto simp: innerJoin_def)

lemma filter_leftJoin:
  "filter (\<lambda>(x, y). p x) (leftJoin xs ys on) = leftJoin (filter p xs) ys on"
proof (induction xs)
  case Nil
  then show ?case by (simp add: leftJoin_def)
next
  case (Cons x xs)
  then show ?case
    by (cases "filter (on x) ys") (auto simp: leftJoin_def)
qed

lemma leftJoin_Nil [simp]: "leftJoin [] ys on = []"
  by (simp add: leftJoin_def)

lemma filter_innerJoin:
  "filter (\<lambda>(x, y). p x) (innerJoin xs ys on) = innerJoin (filter p xs) ys on"
  by (induction xs) (auto simp: innerJoin_def filter_none)

lemma user_by_id:
  "distinct (user_ids d) \<Longrightarrow> u \<in> set (users d) \<Longrightarrow>
   filter (\<lambda>v. users_id v = users_id u) (users d) = [u]"
  by (simp add: user_ids_def filter_key_distinct)

lemma account_by_key:
  "distinct (map account_key (accounts d)) \<Longrightarrow> a \<in> set (accounts d) \<Longrightarrow>
   accounts_provider a = p \<Longrightarrow> accounts_providerAccountId a = q \<Longrightarrow>
   filter (\<lambda>x. accounts_provider x = p \<and> accounts_providerAccountId x = q) (accounts d) = [a]"
  using filter_key_distinct [of account_key "accounts d" a]
  by (simp add: account_key_def)

lemma map_if_none: "(\<forall>x \<in> set xs. \<not> p x) \<Longrightarrow> map (\<lambda>x. if p x then f x else x) xs = xs"
  by (induction xs) simp_all

lemma snd_statement: "snd (statement k fault d run) = (if fault = None then snd run else d)"
  by (cases k; cases fault; cases run; cases "fst run") auto

lemma snd_coalesce [simp]: "snd (coalesce r b) = snd r"
  by (cases r; cases "fst r") auto

lemma awaited_statement:
  "awaited (statement k fault d run) =
     (case fault of
        Some msg \<Rightarrow> (Inl (Store (Driver_fault msg)), d)
      | None \<Rightarrow> (case run of (Inl e, d') \<Rightarrow> (Inl e, d') | (Inr rows, d') \<Rightarrow> (Inr (get rows), d')))"
  by (cases k; cases fault; cases run; cases "fst run") auto

lemma awaited_coalesce_statement:
  "awaited (coalesce (statement k None d (Inr rows, d')) b) =
     (Inr (case k of Sync \<Rightarrow> nullish (get rows) b | Async \<Rightarrow> get rows), d')"
  by (cases k) simp_all

lemma update_one_row:
  "distinct (map key xs) \<Longrightarrow> x \<in> set xs \<Longrightarrow>
   map (\<lambda>y. if key y = key x then f y else y) xs =
   map (\<lambda>y. if key y = key x then f x else y) xs"
proof (rule map_cong [OF refl])
  fix y
  assume "distinct (map key xs)" and "x \<in> set xs" and "y \<in> set xs"
  then have "key y = key x \<Longrightarrow> y = x"
    by (meson distinct_map inj_onD)
  then show "(if key y = key x then f y else y) = (if key y = key x then f x else y)"
    by auto
qed

section \<open>The constraints of the schema are kept\<close>

text \<open>
  The empty store satisfies the keys and references of the schema, and every
  function of the adapter that changes a table keeps them, on either kind of
  client, whether it returns, throws or rejects.
\<close>

lemma wf_empty_db: "wf_db empty_db"
  by (simp add: wf_db_def pk_ok_def fk_ok_def empty_db_def user_ids_def)

lemma wf_createUser: "wf_db d \<Longrightarrow> wf_db (snd (createUser k fault uuid d data))"
  by (auto simp: createUser_def snd_statement users_row_def insert_users_def wf_db_def pk_ok_def
      fk_ok_def user_ids_def)

lemma wf_createSession: "wf_db d \<Longrightarrow> wf_db (snd (createSession k fault d data))"
  by (auto simp: createSession_def snd_statement insert_sessions_def wf_db_def pk_ok_def
      fk_ok_def user_ids_def)

lemma wf_createVerificationToken:
  "wf_db d \<Longrightarrow> wf_db (snd (createVerificationToken k fault d token))"
  by (auto simp: createVerificationToken_def snd_statement insert_verificationTokens_def
      wf_db_def pk_ok_def fk_ok_def user_ids_def)

lemma snd_linkAccount:
  "snd (linkAccount k fault d rawAccount) =
   snd (statement k fault d (insert_accounts d (accounts_row rawAccount)))"
  by (auto simp: linkAccount_def split: prod.splits sum.splits)

lemma wf_linkAccount: "wf_db d \<Longrightarrow> wf_db (snd (linkAccount k fault d rawAccount))"
  by (auto simp: snd_linkAccount snd_statement insert_accounts_def wf_db_def pk_ok_def fk_ok_def
      user_ids_def)

lemma wf_deleteSession: "wf_db d \<Longrightarrow> wf_db (snd (deleteSession k fault d t))"
  by (auto simp: deleteSession_def snd_statement delete_sessions_def wf_db_def pk_ok_def
      fk_ok_def user_ids_def distinct_map_filter)

lemma snd_unlinkAccount:
  "snd (unlinkAccount k fault d account) =
   snd (statement k fault d
          (delete_accounts d
             (\<lambda>a. accounts_providerAccountId a = key_providerAccountId account \<and>
                  accounts_provider a = key_provider account)))"
  by (auto simp: unlinkAccount_def split: prod.splits sum.splits)

lemma wf_unlinkAccount: "wf_db d \<Longrightarrow> wf_db (snd (unlinkAccount k fault d account))"
  by (auto simp: snd_unlinkAccount snd_statement delete_accounts_def wf_db_def pk_ok_def
      fk_ok_def user_ids_def distinct_map_filter)

lemma snd_useVerificationToken:
  "snd (useVerificationToken k fault d token) =
   snd (statement k fault d
          (delete_verificationTokens d
             (\<lambda>v. vt_identifier v = tok_identifier token \<and> vt_token v = tok_token token)))"
proof -
  have "snd (case r of (Inl err, d') \<Rightarrow> (Inl (Error ''No verification token found.''), d')
                     | (Inr row, d') \<Rightarrow> (Inr row, d')) = snd r"
    for r :: "(error + verificationToken result) \<times> db"
    by (cases r; cases "fst r") auto
  then show ?thesis by (simp add: useVerificationToken_def)
qed

lemma wf_useVerificationToken:
  "wf_db d \<Longrightarrow> wf_db (snd (useVerificationToken k fault d token))"
  by (auto simp: snd_useVerificationToken snd_statement delete_verificationTokens_def wf_db_def
      pk_ok_def fk_ok_def user_ids_def distinct_map_filter)

lemma wf_deleteUser: "wf_db d \<Longrightarrow> wf_db (snd (deleteUser k fault d i))"
proof -
  assume wf: "wf_db d"
  obtain rows d' where del: "delete_users d (\<lambda>u. users_id u = i) = (rows, d')"
    by (cases "delete_users d (\<lambda>u. users_id u = i)")
  let ?ids = "map users_id (filter (\<lambda>u. users_id u = i) (users d))"
  from del have us: "users d' = filter (\<lambda>u. users_id u \<noteq> i) (users d)"
    and acc: "accounts d' = filter (\<lambda>a. accounts_userId a \<notin> set ?ids) (accounts d)"
    and ses: "sessions d' = filter (\<lambda>s. sessions_userId s \<notin> set ?ids) (sessions d)"
    and vts: "verificationTokens d' = verificationTokens d"
    by (auto simp: delete_users_def Let_def)
  have kept: "j \<in> set (user_ids d')" if "j \<in> set (user_ids d)" and "j \<notin> set ?ids" for j
  proof -
    from that(1) obtain u where u: "u \<in> set (users d)" "users_id u = j"
      by (auto simp: user_ids_def)
    with that(2) have "users_id u \<noteq> i" by auto
    with u show ?thesis by (auto simp: user_ids_def us)
  qed
  from wf have "pk_ok d'"
    by (simp add: wf_db_def pk_ok_def user_ids_def us acc ses vts distinct_map_filter)
  moreover have "fk_ok d'"
    unfolding fk_ok_def
  proof (intro conjI ballI)
    fix a
    assume "a \<in> set (accounts d')"
    then have "a \<in> set (accounts d)" and "accounts_userId a \<notin> set ?ids"
      by (simp_all add: acc)
    with wf show "accounts_userId a \<in> set (user_ids d')"
      by (simp add: wf_db_def fk_ok_def kept)
  next
    fix s
    assume "s \<in> set (sessions d')"
    then have "s \<in> set (sessions d)" and "sessions_userId s \<notin> set ?ids"
      by (simp_all add: ses)
    with wf show "sessions_userId s \<in> set (user_ids d')"
      by (simp add: wf_db_def fk_ok_def kept)
  qed
  ultimately show ?thesis
    using wf del by (simp add: deleteUser_def snd_statement wf_db_def)
qed

lemma set_user_keeps_id:
  "Some (users_id u) = uu_id data \<Longrightarrow> users_id (set_user data u) = users_id u"
  by (cases "uu_id data") (simp_all add: set_user_def)

lemma updated_user_ids:
  "map (users_id \<circ> (\<lambda>u. if Some (users_id u) = uu_id data then set_user data u else u)) us =
   map users_id us"
  by (induction us) (simp_all add: set_user_keeps_id)

lemma wf_updateUser: "wf_db d \<Longrightarrow> wf_db (snd (updateUser k fault d data))"
proof -
  assume wf: "wf_db d"
  obtain rows d' where upd:
    "update_users d (\<lambda>u. Some (users_id u) = uu_id data) (set_user data) = (rows, d')"
    by (cases "update_users d (\<lambda>u. Some (users_id u) = uu_id data) (set_user data)")
  then have "user_ids d' = user_ids d"
    by (auto simp: update_users_def user_ids_def updated_user_ids)
  moreover from upd have "accounts d' = accounts d" "sessions d' = sessions d"
    "verificationTokens d' = verificationTokens d"
    by (auto simp: update_users_def)
  ultimately have "wf_db d'"
    using wf by (simp add: wf_db_def pk_ok_def fk_ok_def)
  with wf upd show ?thesis
    by (simp add: updateUser_def snd_statement)
qed

lemma updated_session_tokens:
  "map (sessions_sessionToken \<circ>
        (\<lambda>s. if sessions_sessionToken s = su_sessionToken data then set_session data s else s)) ss =
   map sessions_sessionToken ss"
  by (induction ss) (simp_all add: set_session_def)

lemma wf_updateSession: "wf_db d \<Longrightarrow> wf_db (snd (updateSession k fault d data))"
proof -
  assume wf: "wf_db d"
  let ?p = "\<lambda>s. sessions_sessionToken s = su_sessionToken data"
  let ?new = "map (\<lambda>s. if ?p s then set_session data s else s) (sessions d)"
  let ?run = "update_sessions d ?p (set_session data) (su_userId data \<noteq> None)"
  have "wf_db (snd ?run)"
  proof (cases "snd ?run = d")
    case True
    with wf show ?thesis by simp
  next
    case False
    then have d': "snd ?run = d\<lparr>sessions := ?new\<rparr>"
      and ok: "su_userId data \<noteq> None \<longrightarrow>
        (\<forall>s \<in> set (filter ?p (sessions d)).
           sessions_userId (set_session data s) \<in> set (user_ids d))"
      by (auto simp: update_sessions_def Let_def split: if_splits)
    have "map sessions_sessionToken ?new = map sessions_sessionToken (sessions d)"
      by (simp add: updated_session_tokens)
    with wf have "pk_ok (d\<lparr>sessions := ?new\<rparr>)"
      by (simp add: wf_db_def pk_ok_def user_ids_def del: map_map)
    moreover have "fk_ok (d\<lparr>sessions := ?new\<rparr>)"
    proof (cases "su_userId data")
      case None
      then have "sessions_userId (set_session data s) = sessions_userId s" for s
        by (simp add: set_session_def)
      with wf show ?thesis
        by (auto simp: wf_db_def fk_ok_def user_ids_def)
    next
      case (Some v)
      with wf ok show ?thesis
        by (auto simp: wf_db_def fk_ok_def user_ids_def)
    qed
    ultimately show ?thesis
      unfolding wf_db_def d' by simp
  qed
  with wf show ?thesis
    unfolding updateSession_def snd_statement by simp
qed

section \<open>createUser\<close>

text \<open>
  C1 (as amended).  \<^verbatim>\<open>createUser\<close> stores the identifier generated in the call as
  the \<^verbatim>\<open>id\<close> of the new row for every input, also for one that carries an
  \<^verbatim>\<open>id\<close>, on either kind of client.  Whenever the call gives a row (returned, or
  resolved to), the driver has not failed, the generated identifier was the
  \<^verbatim>\<open>id\<close> of no user before, the row has that identifier and the input's other
  properties, and the tables afterwards are the old ones with the row appended to
  \<^verbatim>\<open>users\<close>.  Whenever the driver works and the generated identifier is unused,
  the call does give such a row: the synchronous client returns it, the
  asynchronous one returns a promise that resolves to it.
\<close>

theorem createUser_generated_id:
  "(awaited (createUser k fault uuid d data) = (Inr (Val row), d') \<longrightarrow>
      fault = None \<and> uuid \<notin> set (user_ids d) \<and> users_id row = uuid \<and>
      users_email row = nu_email data \<and>
      users_name row = insert_value (nu_name data) \<and>
      users_emailVerified row = insert_value (nu_emailVerified data) \<and>
      users_image row = insert_value (nu_image data) \<and>
      d' = d\<lparr>users := users d @ [row]\<rparr>) \<and>
   (uuid \<notin> set (user_ids d) \<longrightarrow>
      (\<exists>row. createUser Sync None uuid d data =
                (Inr (Plain (Val row)), d\<lparr>users := users d @ [row]\<rparr>) \<and>
             createUser Async None uuid d data =
                (Inr (Promise (Inr (Val row))), d\<lparr>users := users d @ [row]\<rparr>)))"
proof (intro conjI impI)
  assume run: "awaited (createUser k fault uuid d data) = (Inr (Val row), d')"
  then show fault: "fault = None"
    by (cases fault) (simp_all add: createUser_def awaited_statement)
  from run fault show fresh: "uuid \<notin> set (user_ids d)"
    by (auto simp: createUser_def awaited_statement users_row_def insert_users_def
        split: if_splits)
  from run fault fresh show "users_id row = uuid" "users_email row = nu_email data"
    "users_name row = insert_value (nu_name data)"
    "users_emailVerified row = insert_value (nu_emailVerified data)"
    "users_image row = insert_value (nu_image data)"
    "d' = d\<lparr>users := users d @ [row]\<rparr>"
    by (auto simp: createUser_def awaited_statement users_row_def insert_users_def)
next
  assume "uuid \<notin> set (user_ids d)"
  then show "\<exists>row. createUser Sync None uuid d data =
                (Inr (Plain (Val row)), d\<lparr>users := users d @ [row]\<rparr>) \<and>
             createUser Async None uuid d data =
                (Inr (Promise (Inr (Val row))), d\<lparr>users := users d @ [row]\<rparr>)"
    by (simp add: createUser_def users_row_def insert_users_def)
qed

theorem createUser_generated_id_witness:
  "''generated'' \<notin> set (user_ids empty_db) \<and>
   createUser Sync None ''generated'' empty_db example_new_user =
     (Inr (Plain (Val \<lparr>users_id = ''generated'', users_name = None, users_email = ''a@b.com'',
           users_emailVerified = None, users_image = None\<rparr>)),
      empty_db\<lparr>users := [\<lparr>users_id = ''generated'', users_name = None,
         users_email = ''a@b.com'', users_emailVerified = None, users_image = None\<rparr>]\<rparr>) \<and>
   createUser Async None ''generated'' empty_db example_new_user =
     (Inr (Promise (Inr (Val \<lparr>users_id = ''generated'', users_name = None,
           users_email = ''a@b.com'', users_emailVerified = None, users_image = None\<rparr>))),
      empty_db\<lparr>users := [\<lparr>users_id = ''generated'', users_name = None,
         users_email = ''a@b.com'', users_emailVerified = None, users_image = None\<rparr>]\<rparr>)"
proof -
  have fresh: "''generated'' \<notin> set (user_ids empty_db)"
    by (simp add: user_ids_def empty_db_def)
  with createUser_generated_id [where uuid = "''generated''" and d = empty_db
      and data = example_new_user]
  obtain row where
    sync: "createUser Sync None ''generated'' empty_db example_new_user =
            (Inr (Plain (Val row)), empty_db\<lparr>users := users empty_db @ [row]\<rparr>)"
    and async: "createUser Async None ''generated'' empty_db example_new_user =
            (Inr (Promise (Inr (Val row))), empty_db\<lparr>users := users empty_db @ [row]\<rparr>)"
    by blast
  from sync have "awaited (createUser Sync None ''generated'' empty_db example_new_user) =
      (Inr (Val row), empty_db\<lparr>users := users empty_db @ [row]\<rparr>)"
    by simp
  with createUser_generated_id [where k = Sync and fault = None and uuid = "''generated''"
      and d = empty_db and data = example_new_user and row = row
      and d' = "empty_db\<lparr>users := users empty_db @ [row]\<rparr>"]
  have "users_id row = ''generated''" and "users_email row = ''a@b.com''"
    and "users_name row = None" and "users_emailVerified row = None"
    and "users_image row = None"
    by (simp_all add: example_new_user_def)
  then have "row = \<lparr>users_id = ''generated'', users_name = None, users_email = ''a@b.com'',
           users_emailVerified = None, users_image = None\<rparr>"
    by simp
  with sync async fresh show ?thesis by (simp add: empty_db_def)
qed

text \<open>
  C1 as stated fails: for an input that supplies the \<^verbatim>\<open>id\<close> \<open>''supplied''\<close> the
  created row has the generated \<^verbatim>\<open>id\<close>, not the supplied one, on either kind of
  client.
\<close>

theorem createUser_supplied_id_counterexample:
  "nu_id example_new_user = Some ''supplied'' \<and>
   awaited (createUser Sync None ''generated'' empty_db example_new_user) =
     awaited (createUser Async None ''generated'' empty_db example_new_user) \<and>
   fst (awaited (createUser Sync None ''generated'' empty_db example_new_user)) =
     Inr (Val \<lparr>users_id = ''generated'', users_name = None, users_email = ''a@b.com'',
               users_emailVerified = None, users_image = None\<rparr>) \<and>
   fst (awaited (createUser Sync None ''generated'' empty_db example_new_user)) \<noteq>
     Inr (Val \<lparr>users_id = ''supplied'', users_name = None, users_email = ''a@b.com'',
               users_emailVerified = None, users_image = None\<rparr>)"
  by (simp add: createUser_def users_row_def insert_users_def empty_db_def user_ids_def
      example_new_user_def)

section \<open>useVerificationToken and failures\<close>

text \<open>
  C2 (as amended).  On a synchronous client, whenever the driver fails on the
  deletion of \<^verbatim>\<open>useVerificationToken\<close>, whatever the fault, the call throws the
  one error "No verification token found." and the fault's message is lost.  When
  the statement runs and no row matches the pair, no error is raised on either
  kind of client and the tables are unchanged: the synchronous client returns
  \<^verbatim>\<open>null\<close>, and the promise of the asynchronous one resolves without a row.
\<close>

theorem useVerificationToken_failures:
  "useVerificationToken Sync (Some msg) d token =
     (Inl (Error ''No verification token found.''), d) \<and>
   ((\<forall>v \<in> set (verificationTokens d).
       \<not> (vt_identifier v = tok_identifier token \<and> vt_token v = tok_token token)) \<longrightarrow>
    useVerificationToken Sync None d token = (Inr (Plain Null), d) \<and>
    awaited (useVerificationToken k None d token) =
      (Inr (case k of Sync \<Rightarrow> Null | Async \<Rightarrow> Undefined), d))"
  by (cases k)
    (simp_all add: useVerificationToken_def delete_verificationTokens_def filter_none filter_all)

theorem useVerificationToken_failures_witness:
  "useVerificationToken Sync (Some ''disk I/O error'') example_db
     \<lparr>tok_identifier = ''x@y.com'', tok_token = ''other''\<rparr> =
     (Inl (Error ''No verification token found.''), example_db) \<and>
   useVerificationToken Sync None example_db
     \<lparr>tok_identifier = ''x@y.com'', tok_token = ''other''\<rparr> = (Inr (Plain Null), example_db) \<and>
   awaited (useVerificationToken Async None example_db
     \<lparr>tok_identifier = ''x@y.com'', tok_token = ''other''\<rparr>) = (Inr Undefined, example_db)"
  using useVerificationToken_failures [where msg = "''disk I/O error''" and d = example_db
      and token = "\<lparr>tok_identifier = ''x@y.com'', tok_token = ''other''\<rparr>" and k = Async]
  by (simp add: example_defs)

text \<open>
  C2 as stated fails: on a store with no verification token the call raises no
  error, on either kind of client.
\<close>

theorem useVerificationToken_no_row_counterexample:
  "useVerificationToken Sync None empty_db \<lparr>tok_identifier = ''x@y.com'', tok_token = ''abc''\<rparr> =
     (Inr (Plain Null), empty_db) \<and>
   useVerificationToken Async None empty_db \<lparr>tok_identifier = ''x@y.com'', tok_token = ''abc''\<rparr> =
     (Inr (Promise (Inr Undefined)), empty_db) \<and>
   fst (awaited (useVerificationToken Sync None empty_db
          \<lparr>tok_identifier = ''x@y.com'', tok_token = ''abc''\<rparr>))
     \<noteq> Inl (Error ''No verification token found.'') \<and>
   fst (awaited (useVerificationToken Async None empty_db
          \<lparr>tok_identifier = ''x@y.com'', tok_token = ''abc''\<rparr>))
     \<noteq> Inl (Error ''No verification token found.'')"
  by (simp add: useVerificationToken_def delete_verificationTokens_def empty_db_def)

section \<open>useVerificationToken, used once\<close>

text \<open>
  C3.  A verification token is consumed at most once.  When a call of
  \<^verbatim>\<open>useVerificationToken\<close> gives a row, the row was stored under the pair asked
  for, and a second call with the same pair on the tables the first one left
  never gives a row.  On the synchronous client it returns \<^verbatim>\<open>null\<close> when the
  driver works and throws "No verification token found." when it fails; on the
  asynchronous client its promise resolves to \<^verbatim>\<open>undefined\<close> when the driver
  works and rejects with the driver's fault when it fails.  The first call does
  give the stored row when the driver works and the table holds a row under the
  pair.
\<close>

theorem useVerificationToken_single_use:
  "(awaited (useVerificationToken k fault d token) = (Inr (Val row), d') \<longrightarrow>
      row \<in> set (verificationTokens d) \<and>
      vt_identifier row = tok_identifier token \<and> vt_token row = tok_token token \<and>
      useVerificationToken Sync None d' token = (Inr (Plain Null), d') \<and>
      useVerificationToken Sync (Some msg) d' token =
        (Inl (Error ''No verification token found.''), d') \<and>
      useVerificationToken Async None d' token = (Inr (Promise (Inr Undefined)), d') \<and>
      useVerificationToken Async (Some msg) d' token =
        (Inr (Promise (Inl (Store (Driver_fault msg)))), d') \<and>
      fst (awaited (useVerificationToken k' fault' d' token)) \<noteq> Inr (Val row')) \<and>
   (distinct (map vt_key (verificationTokens d)) \<and> v \<in> set (verificationTokens d) \<and>
    vt_identifier v = tok_identifier token \<and> vt_token v = tok_token token \<longrightarrow>
      (\<exists>d'. useVerificationToken Sync None d token = (Inr (Plain (Val v)), d') \<and>
            useVerificationToken Async None d token = (Inr (Promise (Inr (Val v))), d')))"
proof (intro conjI impI)
  let ?p = "\<lambda>v. vt_identifier v = tok_identifier token \<and> vt_token v = tok_token token"
  assume run: "awaited (useVerificationToken k fault d token) = (Inr (Val row), d')"
  then have fault: "fault = None"
    by (cases fault; cases k) (simp_all add: useVerificationToken_def)
  with run have rows: "get (filter ?p (verificationTokens d)) = Val row"
    and d': "d' = d\<lparr>verificationTokens := filter (\<lambda>v. \<not> ?p v) (verificationTokens d)\<rparr>"
    by (cases k; auto simp: useVerificationToken_def delete_verificationTokens_def)+
  from rows obtain rest where "filter ?p (verificationTokens d) = row # rest"
    by (auto simp: get_eq_Val)
  then have "row \<in> set (filter ?p (verificationTokens d))" by simp
  then show "row \<in> set (verificationTokens d)"
    and "vt_identifier row = tok_identifier token" and "vt_token row = tok_token token"
    by simp_all
  have "\<forall>v \<in> set (verificationTokens d'). \<not> ?p v"
    by (simp add: d')
  then have none: "filter ?p (verificationTokens d') = []"
    and same: "filter (\<lambda>v. \<not> ?p v) (verificationTokens d') = verificationTokens d'"
    by (simp_all add: filter_none filter_all)
  from none same show sync: "useVerificationToken Sync None d' token = (Inr (Plain Null), d')"
    by (simp add: useVerificationToken_def delete_verificationTokens_def)
  show sync_fault: "useVerificationToken Sync (Some msg) d' token =
      (Inl (Error ''No verification token found.''), d')"
    by (simp add: useVerificationToken_def)
  from none same show async:
    "useVerificationToken Async None d' token = (Inr (Promise (Inr Undefined)), d')"
    by (simp add: useVerificationToken_def delete_verificationTokens_def)
  show async_fault: "useVerificationToken Async (Some msg) d' token =
      (Inr (Promise (Inl (Store (Driver_fault msg)))), d')"
    by (simp add: useVerificationToken_def)
  from none same show "fst (awaited (useVerificationToken k' fault' d' token)) \<noteq> Inr (Val row')"
    by (cases k'; cases fault')
      (simp_all add: useVerificationToken_def delete_verificationTokens_def)
next
  assume h: "distinct (map vt_key (verificationTokens d)) \<and> v \<in> set (verificationTokens d) \<and>
    vt_identifier v = tok_identifier token \<and> vt_token v = tok_token token"
  then have "filter (\<lambda>w. vt_key w = vt_key v) (verificationTokens d) = [v]"
    by (simp add: filter_key_distinct)
  moreover have "(\<lambda>w. vt_key w = vt_key v) =
      (\<lambda>w. vt_identifier w = tok_identifier token \<and> vt_token w = tok_token token)"
    using h by (auto simp: vt_key_def)
  ultimately show "\<exists>d'. useVerificationToken Sync None d token = (Inr (Plain (Val v)), d') \<and>
            useVerificationToken Async None d token = (Inr (Promise (Inr (Val v))), d')"
    by (simp add: useVerificationToken_def delete_verificationTokens_def)
qed

theorem useVerificationToken_single_use_witness:
  "useVerificationToken Sync None example_db
       \<lparr>tok_identifier = ''x@y.com'', tok_token = ''abc''\<rparr> =
     (Inr (Plain (Val example_token)), example_db\<lparr>verificationTokens := []\<rparr>) \<and>
   useVerificationToken Sync None (example_db\<lparr>verificationTokens := []\<rparr>)
       \<lparr>tok_identifier = ''x@y.com'', tok_token = ''abc''\<rparr> =
     (Inr (Plain Null), example_db\<lparr>verificationTokens := []\<rparr>) \<and>
   useVerificationToken Async None (example_db\<lparr>verificationTokens := []\<rparr>)
       \<lparr>tok_identifier = ''x@y.com'', tok_token = ''abc''\<rparr> =
     (Inr (Promise (Inr Undefined)), example_db\<lparr>verificationTokens := []\<rparr>)"
proof -
  have first: "useVerificationToken Sync None example_db
      \<lparr>tok_identifier = ''x@y.com'', tok_token = ''abc''\<rparr> =
     (Inr (Plain (Val example_token)), example_db\<lparr>verificationTokens := []\<rparr>)"
    by (simp add: useVerificationToken_def delete_verificationTokens_def example_defs)
  then have "awaited (useVerificationToken Sync None example_db
      \<lparr>tok_identifier = ''x@y.com'', tok_token = ''abc''\<rparr>) =
     (Inr (Val example_token), example_db\<lparr>verificationTokens := []\<rparr>)"
    by simp
  with first useVerificationToken_single_use [where k = Sync and fault = None
      and d = example_db and token = "\<lparr>tok_identifier = ''x@y.com'', tok_token = ''abc''\<rparr>"
      and row = example_token and d' = "example_db\<lparr>verificationTokens := []\<rparr>"]
  show ?thesis by simp
qed

section \<open>Lookups that find nothing\<close>

text \<open>
  On a synchronous client, with the driver working, each of the five lookups
  returns \<^verbatim>\<open>null\<close> when no row matches, and leaves the tables unchanged.
\<close>

lemma lookups_absent_sync:
  "((\<forall>u \<in> set (users d). users_id u \<noteq> i) \<longrightarrow> getUser Sync None d i = (Inr (Plain Null), d)) \<and>
   ((\<forall>u \<in> set (users d). users_email u \<noteq> e) \<longrightarrow>
      getUserByEmail Sync None d e = (Inr (Plain Null), d)) \<and>
   ((\<forall>s \<in> set (sessions d). \<forall>u \<in> set (users d).
        \<not> (sessions_sessionToken s = t \<and> users_id u = sessions_userId s)) \<longrightarrow>
      getSessionAndUser Sync None d t = (Inr (Plain Null), d)) \<and>
   ((\<forall>a \<in> set (accounts d).
        \<not> (accounts_provider a = key_provider k \<and>
           accounts_providerAccountId a = key_providerAccountId k)) \<longrightarrow>
      getUserByAccount Sync None d k = (Inr (Plain Null), d)) \<and>
   ((\<forall>s \<in> set (sessions d). sessions_sessionToken s \<noteq> t') \<longrightarrow>
      deleteSession Sync None d t' = (Inr (Plain Null), d))"
proof (intro conjI impI)
  assume "\<forall>u \<in> set (users d). users_id u \<noteq> i"
  then show "getUser Sync None d i = (Inr (Plain Null), d)"
    by (simp add: getUser_def filter_none)
next
  assume "\<forall>u \<in> set (users d). users_email u \<noteq> e"
  then show "getUserByEmail Sync None d e = (Inr (Plain Null), d)"
    by (simp add: getUserByEmail_def filter_none)
next
  assume "\<forall>s \<in> set (sessions d). \<forall>u \<in> set (users d).
        \<not> (sessions_sessionToken s = t \<and> users_id u = sessions_userId s)"
  then have "filter (\<lambda>(s, u). sessions_sessionToken s = t)
      (innerJoin (sessions d) (users d) (\<lambda>s u. users_id u = sessions_userId s)) = []"
    by (auto simp: filter_empty_conv set_innerJoin)
  then show "getSessionAndUser Sync None d t = (Inr (Plain Null), d)"
    by (simp add: getSessionAndUser_def)
next
  assume "\<forall>a \<in> set (accounts d).
        \<not> (accounts_provider a = key_provider k \<and>
           accounts_providerAccountId a = key_providerAccountId k)"
  then have "filter (\<lambda>a. accounts_provider a = key_provider k \<and>
           accounts_providerAccountId a = key_providerAccountId k) (accounts d) = []"
    by (simp add: filter_none)
  then show "getUserByAccount Sync None d k = (Inr (Plain Null), d)"
    by (simp add: getUserByAccount_def filter_leftJoin)
next
  assume "\<forall>s \<in> set (sessions d). sessions_sessionToken s \<noteq> t'"
  then show "deleteSession Sync None d t' = (Inr (Plain Null), d)"
    by (simp add: deleteSession_def delete_sessions_def filter_none filter_all)
qed

text \<open>
  On an asynchronous client the promise \<^verbatim>\<open>.get()\<close> returns is not awaited:
  \<^verbatim>\<open>?? null\<close> finds a promise, which is returned as it is and resolves to
  \<^verbatim>\<open>undefined\<close> when no row matches.
\<close>

lemma lookups_absent_async:
  "((\<forall>u \<in> set (users d). users_id u \<noteq> i) \<longrightarrow>
      getUser Async None d i = (Inr (Promise (Inr Undefined)), d)) \<and>
   ((\<forall>u \<in> set (users d). users_email u \<noteq> e) \<longrightarrow>
      getUserByEmail Async None d e = (Inr (Promise (Inr Undefined)), d)) \<and>
   ((\<forall>s \<in> set (sessions d). \<forall>u \<in> set (users d).
        \<not> (sessions_sessionToken s = t \<and> users_id u = sessions_userId s)) \<longrightarrow>
      getSessionAndUser Async None d t = (Inr (Promise (Inr Undefined)), d)) \<and>
   ((\<forall>s \<in> set (sessions d). sessions_sessionToken s \<noteq> t') \<longrightarrow>
      deleteSession Async None d t' = (Inr (Promise (Inr Undefined)), d))"
proof (intro conjI impI)
  assume "\<forall>u \<in> set (users d). users_id u \<noteq> i"
  then show "getUser Async None d i = (Inr (Promise (Inr Undefined)), d)"
    by (simp add: getUser_def filter_none)
next
  assume "\<forall>u \<in> set (users d). users_email u \<noteq> e"
  then show "getUserByEmail Async None d e = (Inr (Promise (Inr Undefined)), d)"
    by (simp add: getUserByEmail_def filter_none)
next
  assume "\<forall>s \<in> set (sessions d). \<forall>u \<in> set (users d).
        \<not> (sessions_sessionToken s = t \<and> users_id u = sessions_userId s)"
  then have "filter (\<lambda>(s, u). sessions_sessionToken s = t)
      (innerJoin (sessions d) (users d) (\<lambda>s u. users_id u = sessions_userId s)) = []"
    by (auto simp: filter_empty_conv set_innerJoin)
  then show "getSessionAndUser Async None d t = (Inr (Promise (Inr Undefined)), d)"
    by (simp add: getSessionAndUser_def)
next
  assume "\<forall>s \<in> set (sessions d). sessions_sessionToken s \<noteq> t'"
  then show "deleteSession Async None d t' = (Inr (Promise (Inr Undefined)), d)"
    by (simp add: deleteSession_def delete_sessions_def filter_none filter_all)
qed

text \<open>
  C4 (the code falls short of it).  On the asynchronous client, on a store that
  has no user \<open>''u2''\<close>, no user with the e-mail \<open>''c@d.com''\<close> and no session
  \<open>''s2''\<close>, the promises of \<^verbatim>\<open>getUser\<close>, \<^verbatim>\<open>getUserByEmail\<close>,
  \<^verbatim>\<open>getSessionAndUser\<close> and \<^verbatim>\<open>deleteSession\<close> resolve to \<^verbatim>\<open>undefined\<close>, not
  to \<^verbatim>\<open>null\<close>; \<^verbatim>\<open>getUserByAccount\<close> returns \<^verbatim>\<open>null\<close>.  None of them throws.
\<close>

theorem lookups_absent_async_undefined:
  "getUser Async None example_db ''u2'' = (Inr (Promise (Inr Undefined)), example_db) \<and>
   getUserByEmail Async None example_db ''c@d.com'' =
     (Inr (Promise (Inr Undefined)), example_db) \<and>
   getSessionAndUser Async None example_db ''s2'' =
     (Inr (Promise (Inr Undefined)), example_db) \<and>
   deleteSession Async None example_db ''s2'' = (Inr (Promise (Inr Undefined)), example_db) \<and>
   getUserByAccount Async None example_db
       \<lparr>key_provider = ''github'', key_providerAccountId = ''456''\<rparr> =
     (Inr (Plain Null), example_db) \<and>
   fst (awaited (getUser Async None example_db ''u2'')) \<noteq> Inr Null \<and>
   fst (awaited (getUser Sync None example_db ''u2'')) = Inr Null"
  by (simp add: getUser_def getUserByEmail_def getSessionAndUser_def deleteSession_def
      getUserByAccount_def delete_sessions_def innerJoin_def leftJoin_def example_defs)

section \<open>updateUser\<close>

text \<open>
  C5.  For every input without an \<^verbatim>\<open>id\<close> (the test is \<^verbatim>\<open>!data.id\<close>, which a
  missing \<^verbatim>\<open>id\<close> and the empty string satisfy) \<^verbatim>\<open>updateUser\<close> throws
  "No user id." on either kind of client and whatever the state of the driver,
  so before any statement runs, and the tables are unchanged.  For every input
  with an \<^verbatim>\<open>id\<close> that a stored user has, with the driver working, the call
  gives the updated row and stores it in place of the old one, every other row
  being kept: the \<^verbatim>\<open>id\<close> is the same, \<^verbatim>\<open>email\<close> is the input's when it has
  one, and each of \<^verbatim>\<open>name\<close>, \<^verbatim>\<open>emailVerified\<close> and \<^verbatim>\<open>image\<close> is the input's
  value, NULL when the input gives \<^verbatim>\<open>null\<close>, and the old value when the input
  has no such property.
\<close>

theorem updateUser_requires_id:
  "(js_not (uu_id data) \<longrightarrow> updateUser k fault d data = (Inl (Error ''No user id.''), d)) \<and>
   (uu_id data = Some i \<and> i \<noteq> [] \<and> distinct (user_ids d) \<and>
    u \<in> set (users d) \<and> users_id u = i \<and>
    u' = \<lparr>users_id = i,
          users_name = (case uu_name data of
                          Undefined \<Rightarrow> users_name u | Null \<Rightarrow> None | Val n \<Rightarrow> Some n),
          users_email = (case uu_email data of None \<Rightarrow> users_email u | Some e \<Rightarrow> e),
          users_emailVerified = (case uu_emailVerified data of
                          Undefined \<Rightarrow> users_emailVerified u | Null \<Rightarrow> None | Val t \<Rightarrow> Some t),
          users_image = (case uu_image data of
                          Undefined \<Rightarrow> users_image u | Null \<Rightarrow> None | Val n \<Rightarrow> Some n)\<rparr> \<longrightarrow>
      updateUser Sync None d data =
        (Inr (Plain (Val u')),
         d\<lparr>users := map (\<lambda>v. if users_id v = i then u' else v) (users d)\<rparr>) \<and>
      updateUser Async None d data =
        (Inr (Promise (Inr (Val u'))),
         d\<lparr>users := map (\<lambda>v. if users_id v = i then u' else v) (users d)\<rparr>))"
proof (intro conjI impI)
  assume "js_not (uu_id data)"
  then show "updateUser k fault d data = (Inl (Error ''No user id.''), d)"
    by (simp add: updateUser_def)
next
  assume h: "uu_id data = Some i \<and> i \<noteq> [] \<and> distinct (user_ids d) \<and>
    u \<in> set (users d) \<and> users_id u = i \<and>
    u' = \<lparr>users_id = i,
          users_name = (case uu_name data of
                          Undefined \<Rightarrow> users_name u | Null \<Rightarrow> None | Val n \<Rightarrow> Some n),
          users_email = (case uu_email data of None \<Rightarrow> users_email u | Some e \<Rightarrow> e),
          users_emailVerified = (case uu_emailVerified data of
                          Undefined \<Rightarrow> users_emailVerified u | Null \<Rightarrow> None | Val t \<Rightarrow> Some t),
          users_image = (case uu_image data of
                          Undefined \<Rightarrow> users_image u | Null \<Rightarrow> None | Val n \<Rightarrow> Some n)\<rparr>"
  then have u': "set_user data u = u'"
    by (simp add: set_user_def split: js.splits option.splits)
  from h user_by_id [of d u] have one: "filter (\<lambda>v. users_id v = i) (users d) = [u]"
    by auto
  from h update_one_row [of users_id "users d" u "set_user data"]
  have rest: "map (\<lambda>v. if users_id v = i then set_user data v else v) (users d) =
      map (\<lambda>v. if users_id v = i then u' else v) (users d)"
    by (simp add: user_ids_def u')
  from h one rest u' show "updateUser Sync None d data =
        (Inr (Plain (Val u')),
         d\<lparr>users := map (\<lambda>v. if users_id v = i then u' else v) (users d)\<rparr>)"
    by (simp add: updateUser_def update_users_def)
  from h one rest u' show "updateUser Async None d data =
        (Inr (Promise (Inr (Val u'))),
         d\<lparr>users := map (\<lambda>v. if users_id v = i then u' else v) (users d)\<rparr>)"
    by (simp add: updateUser_def update_users_def)
qed

theorem updateUser_requires_id_witness:
  "updateUser Async (Some ''disk I/O error'') two_users_db
     \<lparr>uu_id = None, uu_name = Val ''Ann'', uu_email = Some ''n@n.com'',
      uu_emailVerified = Undefined, uu_image = Undefined\<rparr> =
     (Inl (Error ''No user id.''), two_users_db) \<and>
   updateUser Sync None two_users_db
     \<lparr>uu_id = Some ''u2'', uu_name = Null, uu_email = Some ''n@n.com'',
      uu_emailVerified = Val 7, uu_image = Undefined\<rparr> =
     (Inr (Plain (Val \<lparr>users_id = ''u2'', users_name = None, users_email = ''n@n.com'',
                users_emailVerified = Some 7, users_image = None\<rparr>)),
      two_users_db\<lparr>users := [example_user, \<lparr>users_id = ''u2'', users_name = None,
         users_email = ''n@n.com'', users_emailVerified = Some 7, users_image = None\<rparr>]\<rparr>) \<and>
   updateUser Async None two_users_db
     \<lparr>uu_id = Some ''u2'', uu_name = Null, uu_email = Some ''n@n.com'',
      uu_emailVerified = Val 7, uu_image = Undefined\<rparr> =
     (Inr (Promise (Inr (Val \<lparr>users_id = ''u2'', users_name = None, users_email = ''n@n.com'',
                users_emailVerified = Some 7, users_image = None\<rparr>))),
      two_users_db\<lparr>users := [example_user, \<lparr>users_id = ''u2'', users_name = None,
         users_email = ''n@n.com'', users_emailVerified = Some 7, users_image = None\<rparr>]\<rparr>)"
  using updateUser_requires_id [where data = "\<lparr>uu_id = None, uu_name = Val ''Ann'',
        uu_email = Some ''n@n.com'', uu_emailVerified = Undefined, uu_image = Undefined\<rparr>"
      and fault = "Some ''disk I/O error''" and d = two_users_db and k = Async]
    updateUser_requires_id [where data = "\<lparr>uu_id = Some ''u2'', uu_name = Null,
        uu_email = Some ''n@n.com'', uu_emailVerified = Val 7, uu_image = Undefined\<rparr>"
      and i = "''u2''" and d = two_users_db and u = second_user
      and u' = "\<lparr>users_id = ''u2'', users_name = None, users_email = ''n@n.com'',
                users_emailVerified = Some 7, users_image = None\<rparr>"]
  by (simp add: two_users_defs user_ids_def)

section \<open>deleteUser\<close>

text \<open>
  C6.  With the driver working \<^verbatim>\<open>deleteUser\<close> always completes, on either kind
  of client.  Whenever it completes on a store in which every account and session
  refers to a stored user (or in which the user to delete is stored), no user, no
  session and no account with that user id is left.
\<close>

theorem deleteUser_cascades:
  "(\<exists>r d'. awaited (deleteUser k None d i) = (Inr r, d')) \<and>
   ((fk_ok d \<or> i \<in> set (user_ids d)) \<and> awaited (deleteUser k fault d i) = (Inr r, d') \<longrightarrow>
      (\<forall>s \<in> set (sessions d'). sessions_userId s \<noteq> i) \<and>
      (\<forall>a \<in> set (accounts d'). accounts_userId a \<noteq> i) \<and>
      (\<forall>u \<in> set (users d'). users_id u \<noteq> i))"
proof (intro conjI impI)
  show "\<exists>r d'. awaited (deleteUser k None d i) = (Inr r, d')"
    by (simp add: deleteUser_def awaited_statement delete_users_def Let_def)
next
  assume h: "(fk_ok d \<or> i \<in> set (user_ids d)) \<and> awaited (deleteUser k fault d i) = (Inr r, d')"
  then have "fault = None"
    by (cases fault) (simp_all add: deleteUser_def awaited_statement)
  with h have d': "d' = snd (delete_users d (\<lambda>u. users_id u = i))"
    by (auto simp: deleteUser_def awaited_statement split: prod.splits sum.splits)
  show "\<forall>u \<in> set (users d'). users_id u \<noteq> i"
    by (simp add: d' delete_users_def Let_def)
  have gone: "i \<in> set (user_ids d) \<Longrightarrow>
      i \<in> set (map users_id (filter (\<lambda>u. users_id u = i) (users d)))"
    by (auto simp: user_ids_def)
  show "\<forall>s \<in> set (sessions d'). sessions_userId s \<noteq> i"
  proof
    fix s
    assume s: "s \<in> set (sessions d')"
    show "sessions_userId s \<noteq> i"
    proof (cases "i \<in> set (user_ids d)")
      case True
      with gone s show ?thesis
        by (auto simp: d' delete_users_def Let_def)
    next
      case False
      with h have "fk_ok d" by simp
      moreover from s have "s \<in> set (sessions d)"
        by (simp add: d' delete_users_def Let_def)
      ultimately have "sessions_userId s \<in> set (user_ids d)"
        by (simp add: fk_ok_def)
      with False show ?thesis by auto
    qed
  qed
  show "\<forall>a \<in> set (accounts d'). accounts_userId a \<noteq> i"
  proof
    fix a
    assume a: "a \<in> set (accounts d')"
    show "accounts_userId a \<noteq> i"
    proof (cases "i \<in> set (user_ids d)")
      case True
      with gone a show ?thesis
        by (auto simp: d' delete_users_def Let_def)
    next
      case False
      with h have "fk_ok d" by simp
      moreover from a have "a \<in> set (accounts d)"
        by (simp add: d' delete_users_def Let_def)
      ultimately have "accounts_userId a \<in> set (user_ids d)"
        by (simp add: fk_ok_def)
      with False show ?thesis by auto
    qed
  qed
qed

theorem deleteUser_cascades_witness:
  "fk_ok two_users_db \<and>
   deleteUser Sync None two_users_db ''u1'' =
     (Inr (Plain (Val example_user)),
      \<lparr>users = [second_user], accounts = [second_account], sessions = [second_session],
       verificationTokens = []\<rparr>) \<and>
   deleteUser Async None two_users_db ''u1'' =
     (Inr (Promise (Inr (Val example_user))),
      \<lparr>users = [second_user], accounts = [second_account], sessions = [second_session],
       verificationTokens = []\<rparr>) \<and>
   sessions_userId second_session \<noteq> ''u1'' \<and> accounts_userId second_account \<noteq> ''u1'' \<and>
   users_id second_user \<noteq> ''u1''"
proof -
  have fk: "fk_ok two_users_db"
    by (simp add: fk_ok_def user_ids_def two_users_defs)
  have run: "deleteUser Sync None two_users_db ''u1'' =
     (Inr (Plain (Val example_user)),
      \<lparr>users = [second_user], accounts = [second_account], sessions = [second_session],
       verificationTokens = []\<rparr>)"
    "deleteUser Async None two_users_db ''u1'' =
     (Inr (Promise (Inr (Val example_user))),
      \<lparr>users = [second_user], accounts = [second_account], sessions = [second_session],
       verificationTokens = []\<rparr>)"
    by (simp_all add: deleteUser_def delete_users_def Let_def two_users_defs)
  from fk run deleteUser_cascades [where d = two_users_db and i = "''u1''" and fault = None
      and k = Async and r = "Val example_user" and d' = "\<lparr>users = [second_user],
        accounts = [second_account], sessions = [second_session], verificationTokens = []\<rparr>"]
  show ?thesis by simp
qed

section \<open>getSessionAndUser\<close>

text \<open>
  With the driver working, \<^verbatim>\<open>getSessionAndUser\<close> gives a pair exactly when a
  session with the token is stored and a stored user has that session's
  \<^verbatim>\<open>userId\<close>, on either kind of client; the pair is such a session with such a
  user (the only ones, when the keys are unique).  In every other case the
  synchronous client returns \<^verbatim>\<open>null\<close> and the promise of the asynchronous one
  resolves to \<^verbatim>\<open>undefined\<close>.
\<close>

lemma getSessionAndUser_pairs:
  "((\<exists>r. awaited (getSessionAndUser k None d t) = (Inr (Val r), d)) \<longleftrightarrow>
      (\<exists>s \<in> set (sessions d). \<exists>u \<in> set (users d).
         sessions_sessionToken s = t \<and> users_id u = sessions_userId s)) \<and>
   (awaited (getSessionAndUser k fault d t) = (Inr (Val r), d') \<longrightarrow>
      session r \<in> set (sessions d) \<and> sessions_sessionToken (session r) = t \<and>
      user r \<in> set (users d) \<and> users_id (user r) = sessions_userId (session r) \<and> d' = d) \<and>
   (\<not> (\<exists>s \<in> set (sessions d). \<exists>u \<in> set (users d).
         sessions_sessionToken s = t \<and> users_id u = sessions_userId s) \<longrightarrow>
      getSessionAndUser Sync None d t = (Inr (Plain Null), d) \<and>
      getSessionAndUser Async None d t = (Inr (Promise (Inr Undefined)), d)) \<and>
   (distinct (map sessions_sessionToken (sessions d)) \<and> distinct (user_ids d) \<and>
    s \<in> set (sessions d) \<and> sessions_sessionToken s = t \<and>
    u \<in> set (users d) \<and> users_id u = sessions_userId s \<longrightarrow>
      awaited (getSessionAndUser k None d t) = (Inr (Val \<lparr>session = s, user = u\<rparr>), d))"
proof -
  let ?rows = "filter (\<lambda>(s, u). sessions_sessionToken s = t)
      (innerJoin (sessions d) (users d) (\<lambda>s u. users_id u = sessions_userId s))"
  let ?objs = "map (\<lambda>(s, u). \<lparr>session = s, user = u\<rparr>) ?rows"
  let ?match = "\<exists>s \<in> set (sessions d). \<exists>u \<in> set (users d).
         sessions_sessionToken s = t \<and> users_id u = sessions_userId s"
  have run: "awaited (getSessionAndUser k None d t) =
      (Inr (case k of Sync \<Rightarrow> nullish (get ?objs) Null | Async \<Rightarrow> get ?objs), d)" for k
    by (simp add: getSessionAndUser_def awaited_coalesce_statement)
  have set_rows: "set ?rows = {(s, u). s \<in> set (sessions d) \<and> u \<in> set (users d) \<and>
      users_id u = sessions_userId s \<and> sessions_sessionToken s = t}"
    by (auto simp: set_innerJoin)
  have empty: "?rows = [] \<longleftrightarrow> \<not> ?match"
    by (auto simp: filter_empty_conv set_innerJoin)
  have a: "(\<exists>r. awaited (getSessionAndUser k None d t) = (Inr (Val r), d)) \<longleftrightarrow> ?match"
  proof (cases ?rows)
    case Nil
    with empty show ?thesis by (cases k) (simp_all add: run)
  next
    case (Cons p ps)
    with empty show ?thesis by (cases k) (simp_all add: run split: prod.splits)
  qed
  have b: "awaited (getSessionAndUser k fault d t) = (Inr (Val r), d') \<longrightarrow>
      session r \<in> set (sessions d) \<and> sessions_sessionToken (session r) = t \<and>
      user r \<in> set (users d) \<and> users_id (user r) = sessions_userId (session r) \<and> d' = d"
  proof
    assume got: "awaited (getSessionAndUser k fault d t) = (Inr (Val r), d')"
    then have "fault = None"
      by (cases fault; cases k) (simp_all add: getSessionAndUser_def)
    with got run have r: "get ?objs = Val r" and d': "d' = d"
      by (cases k; cases ?rows; auto)+
    then obtain p ps where p: "?rows = p # ps" and "r = \<lparr>session = fst p, user = snd p\<rparr>"
      by (cases ?rows) (auto split: prod.splits)
    moreover from p have "p \<in> set ?rows" by simp
    then have "fst p \<in> set (sessions d) \<and> snd p \<in> set (users d) \<and>
      users_id (snd p) = sessions_userId (fst p) \<and> sessions_sessionToken (fst p) = t"
      unfolding set_rows by auto
    ultimately show "session r \<in> set (sessions d) \<and> sessions_sessionToken (session r) = t \<and>
      user r \<in> set (users d) \<and> users_id (user r) = sessions_userId (session r) \<and> d' = d"
      using d' by simp
  qed
  have c: "\<not> ?match \<longrightarrow>
      getSessionAndUser Sync None d t = (Inr (Plain Null), d) \<and>
      getSessionAndUser Async None d t = (Inr (Promise (Inr Undefined)), d)"
    using empty by (simp add: getSessionAndUser_def)
  have e: "distinct (map sessions_sessionToken (sessions d)) \<and> distinct (user_ids d) \<and>
    s \<in> set (sessions d) \<and> sessions_sessionToken s = t \<and>
    u \<in> set (users d) \<and> users_id u = sessions_userId s \<longrightarrow>
      awaited (getSessionAndUser k None d t) = (Inr (Val \<lparr>session = s, user = u\<rparr>), d)"
  proof
    assume h: "distinct (map sessions_sessionToken (sessions d)) \<and> distinct (user_ids d) \<and>
      s \<in> set (sessions d) \<and> sessions_sessionToken s = t \<and>
      u \<in> set (users d) \<and> users_id u = sessions_userId s"
    with filter_key_distinct [of sessions_sessionToken "sessions d" s]
    have one: "filter (\<lambda>x. sessions_sessionToken x = t) (sessions d) = [s]" by auto
    from h user_by_id [of d u]
    have "filter (\<lambda>v. users_id v = sessions_userId s) (users d) = [u]" by auto
    moreover have "?rows = innerJoin (filter (\<lambda>x. sessions_sessionToken x = t) (sessions d))
        (users d) (\<lambda>s u. users_id u = sessions_userId s)"
      by (simp add: filter_innerJoin)
    ultimately have "?rows = [(s, u)]"
      using one by (simp add: innerJoin_def)
    then show "awaited (getSessionAndUser k None d t) = (Inr (Val \<lparr>session = s, user = u\<rparr>), d)"
      by (cases k) (simp_all add: run)
  qed
  from a b c e show ?thesis by blast
qed

text \<open>
  C7 (the code falls short of it).  On the asynchronous client the promise of
  \<^verbatim>\<open>getSessionAndUser\<close> resolves to \<^verbatim>\<open>undefined\<close>, not to \<^verbatim>\<open>null\<close>, both for
  a token that no session has and for a session whose user is not stored; for a
  session with its user it resolves to the pair.
\<close>

theorem getSessionAndUser_async_undefined:
  "getSessionAndUser Async None two_users_db ''s3'' =
     (Inr (Promise (Inr Undefined)), two_users_db) \<and>
   getSessionAndUser Async None (two_users_db\<lparr>users := [example_user]\<rparr>) ''s2'' =
     (Inr (Promise (Inr Undefined)), two_users_db\<lparr>users := [example_user]\<rparr>) \<and>
   getSessionAndUser Async None two_users_db ''s2'' =
     (Inr (Promise (Inr (Val \<lparr>session = second_session, user = second_user\<rparr>))),
      two_users_db) \<and>
   getSessionAndUser Sync None two_users_db ''s3'' = (Inr (Plain Null), two_users_db)"
  by (simp add: getSessionAndUser_def innerJoin_def two_users_defs)

section \<open>linkAccount\<close>

text \<open>
  On a synchronous client, whenever \<^verbatim>\<open>linkAccount\<close> returns, the driver has
  not failed, the row of the input has been appended to \<^verbatim>\<open>accounts\<close>, the four
  required properties of the result are those of the input, and each of the seven
  optional properties is the stored column's value, or \<^verbatim>\<open>undefined\<close> where the
  stored column is NULL: never \<^verbatim>\<open>null\<close>.  It does return when the driver works,
  the compound key is new and the user exists.
\<close>

lemma linkAccount_sync:
  "(linkAccount Sync fault d raw = (Inr r, d') \<longrightarrow>
      (\<exists>acc. r = Plain (Val acc) \<and>
      fault = None \<and> d' = d\<lparr>accounts := accounts d @ [accounts_row raw]\<rparr> \<and>
      obj_userId acc = Val (acc_userId raw) \<and> obj_type acc = Val (acc_type raw) \<and>
      obj_provider acc = Val (acc_provider raw) \<and>
      obj_providerAccountId acc = Val (acc_providerAccountId raw) \<and>
      obj_refresh_token acc =
        (case accounts_refresh_token (accounts_row raw) of None \<Rightarrow> Undefined | Some v \<Rightarrow> Val v) \<and>
      obj_access_token acc =
        (case accounts_access_token (accounts_row raw) of None \<Rightarrow> Undefined | Some v \<Rightarrow> Val v) \<and>
      obj_expires_at acc =
        (case accounts_expires_at (accounts_row raw) of None \<Rightarrow> Undefined | Some v \<Rightarrow> Val v) \<and>
      obj_token_type acc =
        (case accounts_token_type (accounts_row raw) of None \<Rightarrow> Undefined | Some v \<Rightarrow> Val v) \<and>
      obj_scope acc =
        (case accounts_scope (accounts_row raw) of None \<Rightarrow> Undefined | Some v \<Rightarrow> Val v) \<and>
      obj_id_token acc =
        (case accounts_id_token (accounts_row raw) of None \<Rightarrow> Undefined | Some v \<Rightarrow> Val v) \<and>
      obj_session_state acc =
        (case accounts_session_state (accounts_row raw) of None \<Rightarrow> Undefined | Some v \<Rightarrow> Val v))) \<and>
   (account_key (accounts_row raw) \<notin> set (map account_key (accounts d)) \<and>
    acc_userId raw \<in> set (user_ids d) \<longrightarrow>
      (\<exists>acc. linkAccount Sync None d raw =
         (Inr (Plain (Val acc)), d\<lparr>accounts := accounts d @ [accounts_row raw]\<rparr>)))"
proof (intro conjI impI)
  have norm: "\<And>c. nullish (column c) Undefined = (case c of None \<Rightarrow> Undefined | Some v \<Rightarrow> Val v)"
    by (simp split: option.splits)
  assume run: "linkAccount Sync fault d raw = (Inr r, d')"
  then have fault: "fault = None"
    by (cases fault) (simp_all add: linkAccount_def)
  with run have ins: "insert_accounts d (accounts_row raw) =
      (Inr [accounts_row raw], d\<lparr>accounts := accounts d @ [accounts_row raw]\<rparr>)"
    by (auto simp: linkAccount_def insert_accounts_def split: if_splits)
  with run fault have "r = Plain (Val (projr (account_literal (Plain (Val (accounts_row raw))))))"
    and "d' = d\<lparr>accounts := accounts d @ [accounts_row raw]\<rparr>"
    by (auto simp: linkAccount_def)
  with fault show "\<exists>acc. r = Plain (Val acc) \<and>
      fault = None \<and> d' = d\<lparr>accounts := accounts d @ [accounts_row raw]\<rparr> \<and>
      obj_userId acc = Val (acc_userId raw) \<and> obj_type acc = Val (acc_type raw) \<and>
      obj_provider acc = Val (acc_provider raw) \<and>
      obj_providerAccountId acc = Val (acc_providerAccountId raw) \<and>
      obj_refresh_token acc =
        (case accounts_refresh_token (accounts_row raw) of None \<Rightarrow> Undefined | Some v \<Rightarrow> Val v) \<and>
      obj_access_token acc =
        (case accounts_access_token (accounts_row raw) of None \<Rightarrow> Undefined | Some v \<Rightarrow> Val v) \<and>
      obj_expires_at acc =
        (case accounts_expires_at (accounts_row raw) of None \<Rightarrow> Undefined | Some v \<Rightarrow> Val v) \<and>
      obj_token_type acc =
        (case accounts_token_type (accounts_row raw) of None \<Rightarrow> Undefined | Some v \<Rightarrow> Val v) \<and>
      obj_scope acc =
        (case accounts_scope (accounts_row raw) of None \<Rightarrow> Undefined | Some v \<Rightarrow> Val v) \<and>
      obj_id_token acc =
        (case accounts_id_token (accounts_row raw) of None \<Rightarrow> Undefined | Some v \<Rightarrow> Val v) \<and>
      obj_session_state acc =
        (case accounts_session_state (accounts_row raw) of None \<Rightarrow> Undefined | Some v \<Rightarrow> Val v)"
    by (simp add: norm) (simp add: accounts_row_def)
next
  assume "account_key (accounts_row raw) \<notin> set (map account_key (accounts d)) \<and>
    acc_userId raw \<in> set (user_ids d)"
  then have "insert_accounts d (accounts_row raw) =
      (Inr [accounts_row raw], d\<lparr>accounts := accounts d @ [accounts_row raw]\<rparr>)"
    by (simp add: insert_accounts_def accounts_row_def)
  then show "\<exists>acc. linkAccount Sync None d raw =
      (Inr (Plain (Val acc)), d\<lparr>accounts := accounts d @ [accounts_row raw]\<rparr>)"
    by (simp add: linkAccount_def)
qed

text \<open>
  On an asynchronous client \<^verbatim>\<open>updatedAccount\<close> is a promise, whatever the input
  and whether the insert succeeds: the object returned has no property with a
  value.
\<close>

lemma linkAccount_async:
  "fst (linkAccount Async fault d raw) = Inr (Plain (Val empty_account_object))"
  by (cases fault; cases "insert_accounts d (accounts_row raw)";
      cases "fst (insert_accounts d (accounts_row raw))")
    (auto simp: linkAccount_def empty_account_object_def)

text \<open>
  C8 (the code falls short of it).  On the asynchronous client, linking the
  example account to the stored user \<open>''u1''\<close> stores the row, with the access
  token \<open>''at''\<close>, but returns an object without \<^verbatim>\<open>userId\<close>, \<^verbatim>\<open>provider\<close> and
  \<^verbatim>\<open>providerAccountId\<close> and with \<^verbatim>\<open>type\<close> and every optional property
  \<^verbatim>\<open>undefined\<close>; on the synchronous client the same call returns the row's
  properties.
\<close>

theorem linkAccount_async_empty_object:
  "linkAccount Async None example_db example_raw_account =
     (Inr (Plain (Val empty_account_object)),
      example_db\<lparr>accounts := [example_account, accounts_row example_raw_account]\<rparr>) \<and>
   accounts_access_token (accounts_row example_raw_account) = Some ''at'' \<and>
   obj_userId empty_account_object = Undefined \<and>
   obj_access_token empty_account_object = Undefined \<and>
   linkAccount Sync None example_db example_raw_account =
     (Inr (Plain (Val \<lparr>obj_userId = Val ''u1'', obj_type = Val ''oauth'',
        obj_provider = Val ''google'', obj_providerAccountId = Val ''789'',
        obj_refresh_token = Undefined, obj_access_token = Val ''at'',
        obj_expires_at = Undefined, obj_token_type = Val ''bearer'', obj_scope = Undefined,
        obj_id_token = Undefined, obj_session_state = Undefined\<rparr>)),
      example_db\<lparr>accounts := [example_account, accounts_row example_raw_account]\<rparr>)"
  by (simp add: linkAccount_def insert_accounts_def accounts_row_def account_key_def
      user_ids_def empty_account_object_def example_raw_account_def example_defs)

section \<open>getUserByAccount\<close>

text \<open>
  On a synchronous client, with the driver working and the keys unique,
  \<^verbatim>\<open>getUserByAccount\<close> returns the user whose \<^verbatim>\<open>id\<close> is the \<^verbatim>\<open>userId\<close> of the
  account stored under the pair.  It returns \<^verbatim>\<open>null\<close> when no account is stored
  under the pair, whatever other accounts there are, and when the account stored
  under the pair has no user.
\<close>

lemma getUserByAccount_sync:
  "(distinct (map account_key (accounts d)) \<and> distinct (user_ids d) \<and>
    a \<in> set (accounts d) \<and> accounts_provider a = key_provider k \<and>
    accounts_providerAccountId a = key_providerAccountId k \<and>
    u \<in> set (users d) \<and> users_id u = accounts_userId a \<longrightarrow>
      getUserByAccount Sync None d k = (Inr (Plain (Val u)), d)) \<and>
   ((\<forall>a \<in> set (accounts d).
        \<not> (accounts_provider a = key_provider k \<and>
           accounts_providerAccountId a = key_providerAccountId k)) \<longrightarrow>
      getUserByAccount Sync None d k = (Inr (Plain Null), d)) \<and>
   (distinct (map account_key (accounts d)) \<and>
    a \<in> set (accounts d) \<and> accounts_provider a = key_provider k \<and>
    accounts_providerAccountId a = key_providerAccountId k \<and>
    (\<forall>u \<in> set (users d). users_id u \<noteq> accounts_userId a) \<longrightarrow>
      getUserByAccount Sync None d k = (Inr (Plain Null), d))"
proof -
  let ?p = "\<lambda>a. accounts_provider a = key_provider k \<and>
                accounts_providerAccountId a = key_providerAccountId k"
  have run: "getUserByAccount Sync None d k =
      (Inr (Plain (nullish (optional_chain
              (get (leftJoin (filter ?p (accounts d)) (users d)
                      (\<lambda>a u. users_id u = accounts_userId a)))
              (\<lambda>r. column (snd r))) Null)), d)"
    by (simp add: getUserByAccount_def filter_leftJoin)
  have found: "getUserByAccount Sync None d k = (Inr (Plain (Val u)), d)"
    if h: "distinct (map account_key (accounts d)) \<and> distinct (user_ids d) \<and>
      a \<in> set (accounts d) \<and> accounts_provider a = key_provider k \<and>
      accounts_providerAccountId a = key_providerAccountId k \<and>
      u \<in> set (users d) \<and> users_id u = accounts_userId a"
  proof -
    from h have "filter ?p (accounts d) = [a]"
      by (simp add: account_by_key)
    moreover from h user_by_id [of d u]
    have "filter (\<lambda>v. users_id v = accounts_userId a) (users d) = [u]" by auto
    ultimately show ?thesis
      by (simp add: run leftJoin_def)
  qed
  have none: "getUserByAccount Sync None d k = (Inr (Plain Null), d)"
    if "\<forall>a \<in> set (accounts d). \<not> ?p a"
  proof -
    from that have "filter ?p (accounts d) = []" by (simp add: filter_none)
    then show ?thesis by (simp add: run)
  qed
  have dangling: "getUserByAccount Sync None d k = (Inr (Plain Null), d)"
    if h: "distinct (map account_key (accounts d)) \<and>
      a \<in> set (accounts d) \<and> accounts_provider a = key_provider k \<and>
      accounts_providerAccountId a = key_providerAccountId k \<and>
      (\<forall>u \<in> set (users d). users_id u \<noteq> accounts_userId a)"
  proof -
    from h have "filter ?p (accounts d) = [a]"
      by (simp add: account_by_key)
    moreover from h have "filter (\<lambda>v. users_id v = accounts_userId a) (users d) = []"
      by (simp add: filter_none)
    ultimately show ?thesis
      by (simp add: run leftJoin_def)
  qed
  from found none dangling show ?thesis by blast
qed

text \<open>
  On an asynchronous client \<^verbatim>\<open>results\<close> is a promise, which has no property
  \<^verbatim>\<open>users\<close>: the function returns \<^verbatim>\<open>null\<close> for every store, pair and state of
  the driver.
\<close>

lemma getUserByAccount_async: "getUserByAccount Async fault d k = (Inr (Plain Null), d)"
  by (cases fault) (simp_all add: getUserByAccount_def)

text \<open>
  C9 (the code falls short of it).  On the asynchronous client
  \<^verbatim>\<open>getUserByAccount\<close> returns \<^verbatim>\<open>null\<close> for the pair of a stored account whose
  user is stored; on the synchronous client the same call returns that user.
\<close>

theorem getUserByAccount_async_null:
  "second_account \<in> set (accounts two_users_db) \<and> second_user \<in> set (users two_users_db) \<and>
   account_key second_account = (''github'', ''456'') \<and>
   users_id second_user = accounts_userId second_account \<and>
   getUserByAccount Async None two_users_db
       \<lparr>key_provider = ''github'', key_providerAccountId = ''456''\<rparr> =
     (Inr (Plain Null), two_users_db) \<and>
   getUserByAccount Sync None two_users_db
       \<lparr>key_provider = ''github'', key_providerAccountId = ''456''\<rparr> =
     (Inr (Plain (Val second_user)), two_users_db)"
  by (simp add: getUserByAccount_def leftJoin_def account_key_def two_users_defs)

section \<open>Statements that change no row\<close>

text \<open>
  C10.  With the driver working, \<^verbatim>\<open>deleteUser\<close> on an id that no user has
  gives \<^verbatim>\<open>undefined\<close>, not \<^verbatim>\<open>null\<close>; so do \<^verbatim>\<open>updateUser\<close> on an id that no
  user has and \<^verbatim>\<open>updateSession\<close> on a token that no session has.  The
  synchronous client returns \<^verbatim>\<open>undefined\<close>, the promise of the asynchronous
  one resolves to it.  The tables are unchanged.
\<close>

theorem no_row_gives_undefined:
  "((\<forall>u \<in> set (users d). users_id u \<noteq> i) \<longrightarrow>
      deleteUser Sync None d i = (Inr (Plain Undefined), d) \<and>
      deleteUser Async None d i = (Inr (Promise (Inr Undefined)), d) \<and>
      fst (awaited (deleteUser k None d i)) \<noteq> Inr Null) \<and>
   (\<not> js_not (uu_id data) \<and> (\<forall>u \<in> set (users d). Some (users_id u) \<noteq> uu_id data) \<longrightarrow>
      updateUser Sync None d data = (Inr (Plain Undefined), d) \<and>
      updateUser Async None d data = (Inr (Promise (Inr Undefined)), d) \<and>
      fst (awaited (updateUser k None d data)) \<noteq> Inr Null) \<and>
   ((\<forall>s \<in> set (sessions d). sessions_sessionToken s \<noteq> su_sessionToken upd) \<longrightarrow>
      updateSession Sync None d upd = (Inr (Plain Undefined), d) \<and>
      updateSession Async None d upd = (Inr (Promise (Inr Undefined)), d) \<and>
      fst (awaited (updateSession k None d upd)) \<noteq> Inr Null)"
proof (intro conjI impI)
  assume h: "\<forall>u \<in> set (users d). users_id u \<noteq> i"
  then have run: "delete_users d (\<lambda>u. users_id u = i) = (Inr [], d)"
    by (simp add: delete_users_def filter_none filter_all)
  then show "deleteUser Sync None d i = (Inr (Plain Undefined), d)"
    and "deleteUser Async None d i = (Inr (Promise (Inr Undefined)), d)"
    by (simp_all add: deleteUser_def)
  from run show "fst (awaited (deleteUser k None d i)) \<noteq> Inr Null"
    by (simp add: deleteUser_def awaited_statement)
next
  assume h: "\<not> js_not (uu_id data) \<and> (\<forall>u \<in> set (users d). Some (users_id u) \<noteq> uu_id data)"
  then have run: "update_users d (\<lambda>u. Some (users_id u) = uu_id data) (set_user data) =
      (Inr [], d)"
    by (simp add: update_users_def filter_none map_if_none)
  with h show "updateUser Sync None d data = (Inr (Plain Undefined), d)"
    and "updateUser Async None d data = (Inr (Promise (Inr Undefined)), d)"
    by (simp_all add: updateUser_def)
  from run h show "fst (awaited (updateUser k None d data)) \<noteq> Inr Null"
    by (simp add: updateUser_def awaited_statement)
next
  assume "\<forall>s \<in> set (sessions d). sessions_sessionToken s \<noteq> su_sessionToken upd"
  then have run: "update_sessions d (\<lambda>s. sessions_sessionToken s = su_sessionToken upd)
      (set_session upd) (su_userId upd \<noteq> None) = (Inr [], d)"
    by (simp add: update_sessions_def filter_none map_if_none)
  then show "updateSession Sync None d upd = (Inr (Plain Undefined), d)"
    and "updateSession Async None d upd = (Inr (Promise (Inr Undefined)), d)"
    unfolding updateSession_def by simp_all
  from run show "fst (awaited (updateSession k None d upd)) \<noteq> Inr Null"
    unfolding updateSession_def by (simp add: awaited_statement)
qed

theorem no_row_gives_undefined_witness:
  "deleteUser Sync None example_db ''u2'' = (Inr (Plain Undefined), example_db) \<and>
   deleteUser Async None example_db ''u2'' = (Inr (Promise (Inr Undefined)), example_db) \<and>
   updateUser Sync None example_db
     \<lparr>uu_id = Some ''u2'', uu_name = Val ''Bo'', uu_email = None,
      uu_emailVerified = Undefined, uu_image = Undefined\<rparr> =
     (Inr (Plain Undefined), example_db) \<and>
   updateSession Sync None example_db
     \<lparr>su_sessionToken = ''s2'', su_userId = Some ''nobody'', su_expires = Some 5000\<rparr> =
     (Inr (Plain Undefined), example_db) \<and>
   deleteSession Sync None example_db ''s2'' = (Inr (Plain Null), example_db)"
  using no_row_gives_undefined [where d = example_db and i = "''u2''"
      and data = "\<lparr>uu_id = Some ''u2'', uu_name = Val ''Bo'', uu_email = None,
        uu_emailVerified = Undefined, uu_image = Undefined\<rparr>"
      and upd = "\<lparr>su_sessionToken = ''s2'', su_userId = Some ''nobody'',
        su_expires = Some 5000\<rparr>"]
  by (simp add: example_defs deleteSession_def delete_sessions_def)

end
